theory Spec2Isabelle
  imports Complex_Main "HOL-Library.AList" "HOL-Library.Char_ord" "HOL-Library.List_Lexorder"
begin

section \<open>OpsIntel360: the analytics pipeline\<close>

text \<open>
  A shallow embedding of the decision logic of OpsIntel360: the insight engine
  (\<^verbatim>\<open>models/insights.py\<close>), the anomaly engine (\<^verbatim>\<open>models/anomalies.py\<close>), the
  accuracy computation of the forecast adapter (\<^verbatim>\<open>models/forecasting.py\<close>), the ETL
  cleaning and loading (\<^verbatim>\<open>etl/utils.py\<close>, \<^verbatim>\<open>etl/etl_pipeline.py\<close>) and the
  refresh endpoint (\<^verbatim>\<open>api/endpoints.py\<close>).

  Numbers. Python's and numpy's 64-bit floats are idealised as real numbers: no rounding,
  no overflow, no signed zero. The non-finite results that numpy produces instead of
  raising (division by zero gives an infinity or NaN, any operation on NaN gives NaN,
  every comparison with NaN is false) are kept explicit in the type \<open>npfloat\<close>. Where
  rounding decides what the code does (the standard deviation of a series, compared with
  0), the floating-point result is a parameter of the model and not computed.
\<close>

subsection \<open>Python exceptions\<close>

datatype error = KeyError | TypeError | ValueError | FileNotFoundError | DatabaseError | OtherError

subsection \<open>The refresh endpoint (\<^verbatim>\<open>api/endpoints.py\<close>)\<close>

text \<open>The process-wide status tracker \<^verbatim>\<open>refresh_status\<close>, a dict with three keys.\<close>

record refresh_status_t =
  last_refresh :: "string option"
  status :: string
  message :: string

text \<open>The request body \<^verbatim>\<open>RefreshRequest\<close>.\<close>

record RefreshRequest =
  regenerate_data :: bool
  run_forecasting :: bool
  run_anomaly_detection :: bool
  run_insights :: bool

text \<open>
  What the handler answers: \<^verbatim>\<open>JSONResponse(status_code=409, content=...)\<close>, or a plain
  dict, which FastAPI sends with status code 200.
\<close>

record http_response =
  status_code :: nat
  content :: "(string \<times> string) list"

text \<open>
  The state the handler can touch: the global \<^verbatim>\<open>refresh_status\<close> and the queue of FastAPI's
  \<^verbatim>\<open>BackgroundTasks\<close> (each entry is a pending call \<^verbatim>\<open>refresh_data_task(request)\<close>).
\<close>

record api_state =
  refresh_status :: refresh_status_t
  background_tasks :: "RefreshRequest list"

definition initial_refresh_status :: refresh_status_t where
  "initial_refresh_status = \<lparr>last_refresh = None, status = ''idle'', message = ''''\<rparr>"

definition refresh_data :: "RefreshRequest \<Rightarrow> api_state \<Rightarrow> http_response \<times> api_state" where
  "refresh_data request st =
     (if status (refresh_status st) = ''running'' then
        (\<lparr>status_code = 409,
          content = [(''status'', ''error''), (''message'', ''Refresh already in progress'')]\<rparr>,
         st)
      else
        (\<lparr>status_code = 200,
          content = [(''status'', ''accepted''),
                     (''message'', ''Data refresh started in background''),
                     (''check_status_at'', ''/status'')]\<rparr>,
         st\<lparr>background_tasks := background_tasks st @ [request]\<rparr>))"

text \<open>
  The first two assignments of \<^verbatim>\<open>refresh_data_task\<close>: the state a status query or a second
  trigger sees while the task is running the pipeline.
\<close>

definition refresh_data_task_begin :: "refresh_status_t \<Rightarrow> refresh_status_t" where
  "refresh_data_task_begin rs = rs\<lparr>status := ''running'', message := ''Running ETL pipeline...''\<rparr>"

subsection \<open>numpy floats\<close>

datatype npfloat = Finite real | PosInf | NegInf | NaN

definition inf_of_sign :: "real \<Rightarrow> npfloat" where
  "inf_of_sign s = (if 0 < s then PosInf else if s < 0 then NegInf else NaN)"

fun np_sign :: "npfloat \<Rightarrow> real" where
  "np_sign (Finite x) = sgn x"
| "np_sign PosInf = 1"
| "np_sign NegInf = - 1"
| "np_sign NaN = 0"

fun np_sub :: "npfloat \<Rightarrow> npfloat \<Rightarrow> npfloat" where
  "np_sub (Finite a) (Finite b) = Finite (a - b)"
| "np_sub NaN y = NaN"
| "np_sub x NaN = NaN"
| "np_sub PosInf PosInf = NaN"
| "np_sub NegInf NegInf = NaN"
| "np_sub PosInf y = PosInf"
| "np_sub NegInf y = NegInf"
| "np_sub x PosInf = NegInf"
| "np_sub x NegInf = PosInf"

fun np_mul :: "npfloat \<Rightarrow> npfloat \<Rightarrow> npfloat" where
  "np_mul (Finite a) (Finite b) = Finite (a * b)"
| "np_mul NaN y = NaN"
| "np_mul x NaN = NaN"
| "np_mul x y = inf_of_sign (np_sign x * np_sign y)"

text \<open>True division: a finite number divided by zero is an infinity of its sign, and 0/0 is NaN.\<close>

fun np_div :: "npfloat \<Rightarrow> npfloat \<Rightarrow> npfloat" where
  "np_div (Finite a) (Finite b) = (if b \<noteq> 0 then Finite (a / b) else inf_of_sign (sgn a))"
| "np_div NaN y = NaN"
| "np_div x NaN = NaN"
| "np_div (Finite a) y = Finite 0"
| "np_div x (Finite b) = inf_of_sign (np_sign x * (if b < 0 then - 1 else 1))"
| "np_div x y = NaN"

fun np_abs :: "npfloat \<Rightarrow> npfloat" where
  "np_abs (Finite a) = Finite \<bar>a\<bar>"
| "np_abs PosInf = PosInf"
| "np_abs NegInf = PosInf"
| "np_abs NaN = NaN"

text \<open>\<open>x < y\<close> on floats: false as soon as one side is NaN.\<close>

fun np_less :: "npfloat \<Rightarrow> npfloat \<Rightarrow> bool" where
  "np_less (Finite a) (Finite b) = (a < b)"
| "np_less NaN y = False"
| "np_less x NaN = False"
| "np_less NegInf NegInf = False"
| "np_less NegInf y = True"
| "np_less x PosInf = (x \<noteq> PosInf)"
| "np_less x y = False"

definition np_greater :: "npfloat \<Rightarrow> npfloat \<Rightarrow> bool" where
  "np_greater x y = np_less y x"

definition np_greater_eq :: "npfloat \<Rightarrow> npfloat \<Rightarrow> bool" where
  "np_greater_eq x y = (np_less y x \<or> (x = y \<and> x \<noteq> NaN))"

subsection \<open>Configuration (\<^verbatim>\<open>config.py\<close>)\<close>

record kpi_threshold =
  good :: real
  warning :: real
  critical :: real

record kpi_thresholds =
  revenue_growth :: kpi_threshold
  profit_margin :: kpi_threshold
  employee_turnover :: kpi_threshold
  ticket_resolution_hours :: kpi_threshold
  ontime_delivery :: kpi_threshold

definition KPI_THRESHOLDS :: kpi_thresholds where
  "KPI_THRESHOLDS =
     \<lparr>revenue_growth = \<lparr>good = 5, warning = 0, critical = - 5\<rparr>,
      profit_margin = \<lparr>good = 20, warning = 10, critical = 5\<rparr>,
      employee_turnover = \<lparr>good = 10, warning = 15, critical = 20\<rparr>,
      ticket_resolution_hours = \<lparr>good = 24, warning = 48, critical = 72\<rparr>,
      ontime_delivery = \<lparr>good = 95, warning = 90, critical = 85\<rparr>\<rparr>"

record anomaly_config =
  contamination :: real
  z_score_threshold :: real

definition ANOMALY_CONFIG :: anomaly_config where
  "ANOMALY_CONFIG = \<lparr>contamination = 1 / 10, z_score_threshold = 3\<rparr>"

subsection \<open>The insight engine (\<^verbatim>\<open>models/insights.py\<close>)\<close>

text \<open>
  Dates are the strings SQLite stores (ISO dates), compared as strings. Every row that
  carries a date extends \<open>dated\<close>.
\<close>

record dated =
  date :: string

text \<open>The columns of \<^verbatim>\<open>finance\<close> that the revenue analysis selects.\<close>

record finance_row = dated +
  revenue :: npfloat
  profit_margin_pct :: npfloat

text \<open>
  The f-strings of the engine, one constructor per message, carrying the numbers the
  message formats (formatting a float to one decimal is left abstract):
  accelerated is the "good" band, steady is the middle band.
\<close>

datatype insight_text =
    RevenueAccelerated npfloat
  | RevenueDeclined npfloat
  | RevenueSlowed npfloat
  | RevenueSteady npfloat
  | MarginCriticallyLow npfloat
  | MarginStrong npfloat
  | TurnoverCritical npfloat
  | TurnoverHealthy npfloat
  | TeamGrew int
  | DomainText string

text \<open>
  The number an insight carries is the numpy scalar the analysis computed: a
  \<^verbatim>\<open>numpy.float64\<close> (read from a REAL column, or the result of a division) or a
  \<^verbatim>\<open>numpy.int64\<close> (read from an INTEGER column, or a difference of two such). Python treats
  the two differently: \<^verbatim>\<open>numpy.float64\<close> is a subclass of \<^verbatim>\<open>float\<close>, \<^verbatim>\<open>numpy.int64\<close> is not
  an \<^verbatim>\<open>int\<close>.
\<close>

datatype np_number = NpFloat npfloat | NpInt int

record insight = dated +
  category :: string
  insight_text :: insight_text
  severity :: string
  metric_value :: np_number

text \<open>
  \<^verbatim>\<open>SELECT date, revenue, profit_margin_pct FROM finance ORDER BY date DESC LIMIT 6\<close>:
  the six latest rows, latest first.
\<close>

definition query_recent_finance :: "finance_row list \<Rightarrow> finance_row list" where
  "query_recent_finance finance = take 6 (rev (sort_key date finance))"

definition analyze_revenue_trends :: "kpi_thresholds \<Rightarrow> finance_row list \<Rightarrow> insight list" where
  "analyze_revenue_trends thresholds finance =
     (let df = query_recent_finance finance in
      if length df < 2 then []
      else
        let df = sort_key date df;
            latest_revenue = revenue (last df);
            prev_revenue = revenue (df ! (length df - 2));
            growth_rate = np_mul (np_div (np_sub latest_revenue prev_revenue) prev_revenue) (Finite 100);
            (severity, insight_text) =
              (if np_greater growth_rate (Finite (good (revenue_growth thresholds))) then
                 (''info'', RevenueAccelerated growth_rate)
               else if np_less growth_rate (Finite (critical (revenue_growth thresholds))) then
                 (''critical'', RevenueDeclined (np_abs growth_rate))
               else if np_less growth_rate (Finite (warning (revenue_growth thresholds))) then
                 (''warning'', RevenueSlowed growth_rate)
               else
                 (''info'', RevenueSteady growth_rate));
            insights = [\<lparr>date = date (last df), category = ''finance'', insight_text = insight_text,
                          severity = severity, metric_value = NpFloat growth_rate\<rparr>];
            latest_margin = profit_margin_pct (last df)
        in
          if np_less latest_margin (Finite (critical (profit_margin thresholds))) then
            insights @ [\<lparr>date = date (last df), category = ''finance'',
                          insight_text = MarginCriticallyLow latest_margin,
                          severity = ''critical'', metric_value = NpFloat latest_margin\<rparr>]
          else if np_greater latest_margin (Finite (good (profit_margin thresholds))) then
            insights @ [\<lparr>date = date (last df), category = ''finance'',
                          insight_text = MarginStrong latest_margin,
                          severity = ''info'', metric_value = NpFloat latest_margin\<rparr>]
          else insights)"

text \<open>A revenue insight is one of the four growth messages (the margin messages are the other kind).\<close>

fun is_revenue_text :: "insight_text \<Rightarrow> bool" where
  "is_revenue_text (RevenueAccelerated g) = True"
| "is_revenue_text (RevenueDeclined g) = True"
| "is_revenue_text (RevenueSlowed g) = True"
| "is_revenue_text (RevenueSteady g) = True"
| "is_revenue_text t = False"

text \<open>
  The classification in the words of the specification, with the good band starting at
  5% inclusive; compared with the code under C1.
\<close>

definition claimed_revenue_class :: "npfloat \<Rightarrow> string \<times> insight_text" where
  "claimed_revenue_class g =
     (if np_greater_eq g (Finite 5) then (''info'', RevenueAccelerated g)
      else if np_less g (Finite (- 5)) then (''critical'', RevenueDeclined (np_abs g))
      else if np_less g (Finite 0) then (''warning'', RevenueSlowed g)
      else (''info'', RevenueSteady g))"

text \<open>
  The columns of \<^verbatim>\<open>hr\<close> that the HR analysis selects. \<^verbatim>\<open>employee_count\<close> is an INTEGER
  column (the generator writes \<^verbatim>\<open>int(...)\<close>), read back by pandas as \<^verbatim>\<open>int64\<close>; the counts
  are far from the 64-bit bounds, so they are integers here.
\<close>

record hr_row = dated +
  employee_count :: int
  turnover_rate_pct :: npfloat
  satisfaction_score :: npfloat
  absenteeism_rate_pct :: npfloat

text \<open>\<^verbatim>\<open>SELECT ... FROM hr ORDER BY date DESC LIMIT 6\<close>.\<close>

definition query_recent_hr :: "hr_row list \<Rightarrow> hr_row list" where
  "query_recent_hr hr = take 6 (rev (sort_key date hr))"

text \<open>
  \<^verbatim>\<open>analyze_hr_metrics\<close>. The growth insight stores \<^verbatim>\<open>growth\<close>, the difference of two
  \<^verbatim>\<open>int64\<close> cells, as its metric value without converting it (the sales analysis
  converts with \<^verbatim>\<open>float(...)\<close>).
\<close>

definition analyze_hr_metrics :: "kpi_thresholds \<Rightarrow> hr_row list \<Rightarrow> insight list" where
  "analyze_hr_metrics thresholds hr =
     (let df = query_recent_hr hr in
      if df = [] then []
      else
        let df = sort_key date df;
            latest = last df;
            turnover = turnover_rate_pct latest;
            insights =
              (if np_greater turnover (Finite (critical (employee_turnover thresholds))) then
                 [\<lparr>date = date latest, category = ''hr'', insight_text = TurnoverCritical turnover,
                   severity = ''critical'', metric_value = NpFloat turnover\<rparr>]
               else if np_less turnover (Finite (good (employee_turnover thresholds))) then
                 [\<lparr>date = date latest, category = ''hr'', insight_text = TurnoverHealthy turnover,
                   severity = ''info'', metric_value = NpFloat turnover\<rparr>]
               else [])
        in
          if 2 \<le> length df then
            let growth = employee_count latest - employee_count (hd df) in
            if 10 < growth then
              insights @ [\<lparr>date = date latest, category = ''hr'', insight_text = TeamGrew growth,
                            severity = ''info'', metric_value = NpInt growth\<rparr>]
            else insights
          else insights)"

text \<open>
  \<^verbatim>\<open>generate_all_insights\<close>. The five analyzers only read the store, so each is given by
  its outcome: the list it returns or the exception it raises. \<open>run_analyzers\<close> is the
  \<^verbatim>\<open>for domain, func in insight_functions\<close> loop with its \<^verbatim>\<open>try/except\<close>.
\<close>

type_synonym analyzer_outcome = "error + insight list"

fun run_analyzers :: "(string \<times> analyzer_outcome) list \<Rightarrow> insight list \<Rightarrow> insight list" where
  "run_analyzers [] all_insights = all_insights"
| "run_analyzers ((domain, Inr insights) # rest) all_insights = run_analyzers rest (all_insights @ insights)"
| "run_analyzers ((domain, Inl e) # rest) all_insights = run_analyzers rest all_insights"

text \<open>
  The world around the engine: whether \<^verbatim>\<open>insert_insight\<close> succeeds on a given insight (the
  database driver decides, also what it does with a numpy integer) and whether
  \<^verbatim>\<open>insights.json\<close> can be opened for writing.
\<close>

record storage_env =
  insert_ok :: "insight \<Rightarrow> bool"
  open_ok :: bool

text \<open>
  The exported file: absent, a complete export (\<^verbatim>\<open>total_insights\<close> and the list), or the
  beginning of one, left behind when \<^verbatim>\<open>json.dump\<close> raised after \<^verbatim>\<open>open(output_path, 'w')\<close> had
  truncated the file.
\<close>

datatype json_file = NoFile | Export nat "insight list" | Partial

text \<open>
  What the engine changes: the \<^verbatim>\<open>insights\<close> table, the attribute \<^verbatim>\<open>self.insights\<close> and
  the exported file.
\<close>

record engine_state =
  insights_table :: "insight list"
  self_insights :: "insight list"
  insights_json :: json_file

text \<open>The saving loop: a failed insert is caught and the loop goes on.\<close>

fun save_insights :: "(insight \<Rightarrow> bool) \<Rightarrow> insight list \<Rightarrow> insight list \<Rightarrow> insight list" where
  "save_insights ok [] table = table"
| "save_insights ok (i # rest) table = save_insights ok rest (if ok i then table @ [i] else table)"

text \<open>
  What \<^verbatim>\<open>json.dump\<close> accepts as a number: a \<^verbatim>\<open>numpy.float64\<close> is a \<^verbatim>\<open>float\<close> (infinities and
  NaN are written too, \<^verbatim>\<open>allow_nan\<close> being left on); on a \<^verbatim>\<open>numpy.int64\<close> the encoder raises
  \<^verbatim>\<open>TypeError: Object of type int64 is not JSON serializable\<close>. The other entries of an
  insight are strings.
\<close>

fun json_serializable :: "np_number \<Rightarrow> bool" where
  "json_serializable (NpFloat x) = True"
| "json_serializable (NpInt n) = False"

text \<open>
  \<^verbatim>\<open>_save_insights_to_json\<close>: the exception it raises, if any, and the state it leaves.
\<close>

definition save_insights_to_json ::
  "storage_env \<Rightarrow> insight list \<Rightarrow> engine_state \<Rightarrow> error option \<times> engine_state" where
  "save_insights_to_json env insights st =
     (if \<not> open_ok env then (Some OtherError, st)
      else if list_all (\<lambda>i. json_serializable (metric_value i)) insights then
        (None, st\<lparr>insights_json := Export (length insights) insights\<rparr>)
      else (Some TypeError, st\<lparr>insights_json := Partial\<rparr>))"

text \<open>\<^verbatim>\<open>_save_insights_to_json\<close> is called outside any \<^verbatim>\<open>try\<close>: its failure escapes.\<close>

definition generate_all_insights ::
  "storage_env \<Rightarrow> analyzer_outcome \<Rightarrow> analyzer_outcome \<Rightarrow> analyzer_outcome \<Rightarrow> analyzer_outcome
     \<Rightarrow> analyzer_outcome \<Rightarrow> engine_state \<Rightarrow> (error + insight list) \<times> engine_state" where
  "generate_all_insights env finance sales operations hr it st =
     (let insight_functions = [(''Finance'', finance), (''Sales'', sales), (''Operations'', operations),
                               (''HR'', hr), (''IT'', it)];
          all_insights = run_analyzers insight_functions [];
          st = st\<lparr>insights_table := save_insights (insert_ok env) all_insights (insights_table st)\<rparr>;
          st = st\<lparr>self_insights := all_insights\<rparr>
      in case save_insights_to_json env all_insights st of
           (None, st) \<Rightarrow> (Inr all_insights, st)
         | (Some e, st) \<Rightarrow> (Inl e, st))"

text \<open>What an analyzer contributes: its list, or nothing when it raised.\<close>

fun contributed :: "analyzer_outcome \<Rightarrow> insight list" where
  "contributed (Inr insights) = insights"
| "contributed (Inl e) = []"

text \<open>Names for the parts of \<^verbatim>\<open>analyze_revenue_trends\<close>, used in the proofs.\<close>

definition revenue_window :: "finance_row list \<Rightarrow> finance_row list" where
  "revenue_window finance = sort_key date (query_recent_finance finance)"

definition growth_of :: "finance_row list \<Rightarrow> npfloat" where
  "growth_of w = np_mul (np_div (np_sub (revenue (last w)) (revenue (w ! (length w - 2))))
                                (revenue (w ! (length w - 2)))) (Finite 100)"

definition margin_insights :: "finance_row list \<Rightarrow> insight list" where
  "margin_insights w = (let m = profit_margin_pct (last w) in
     if np_less m (Finite 5) then [\<lparr>date = date (last w), category = ''finance'',
                          insight_text = MarginCriticallyLow m,
                          severity = ''critical'', metric_value = NpFloat m\<rparr>]
     else if np_greater m (Finite 20) then [\<lparr>date = date (last w), category = ''finance'',
                          insight_text = MarginStrong m,
                          severity = ''info'', metric_value = NpFloat m\<rparr>] else [])"

definition revenue_class :: "npfloat \<Rightarrow> string \<times> insight_text" where
  "revenue_class g = (if np_greater g (Finite 5) then (''info'', RevenueAccelerated g)
          else if np_less g (Finite (- 5)) then (''critical'', RevenueDeclined (np_abs g))
          else if np_less g (Finite 0) then (''warning'', RevenueSlowed g)
          else (''info'', RevenueSteady g))"

subsection \<open>Data frames of the anomaly engine (\<^verbatim>\<open>models/anomalies.py\<close>)\<close>

text \<open>
  A cell of a pandas frame: a float (NaN is the missing value), a string, a boolean or a
  timestamp (a parsed date, kept as its ISO text).
  A row maps column names to cells, in column order; a frame is the list of its rows.
\<close>

datatype cell = Num npfloat | Str string | Flag bool | Timestamp string

type_synonym row = "(string \<times> cell) list"

type_synonym frame = "row list"

fun np_add :: "npfloat \<Rightarrow> npfloat \<Rightarrow> npfloat" where
  "np_add (Finite a) (Finite b) = Finite (a + b)"
| "np_add NaN y = NaN"
| "np_add x NaN = NaN"
| "np_add PosInf NegInf = NaN"
| "np_add NegInf PosInf = NaN"
| "np_add PosInf y = PosInf"
| "np_add NegInf y = NegInf"
| "np_add x PosInf = PosInf"
| "np_add x NegInf = NegInf"

fun np_sqrt :: "npfloat \<Rightarrow> npfloat" where
  "np_sqrt (Finite a) = (if a < 0 then NaN else Finite (sqrt a))"
| "np_sqrt PosInf = PosInf"
| "np_sqrt NegInf = NaN"
| "np_sqrt NaN = NaN"

definition np_sum :: "npfloat list \<Rightarrow> npfloat" where
  "np_sum xs = foldl np_add (Finite 0) xs"

text \<open>
  \<^verbatim>\<open>Series.mean()\<close> and \<^verbatim>\<open>Series.std()\<close> are computed by pandas in 64-bit floating
  point, with rounding at every step: the mean of the floats 0.1, 0.1, 0.1 is
  0.10000000000000002 and their standard deviation is 1.7e-17, not 0. What the two calls
  return is therefore not defined here: the anomaly engine takes them as the parameters
  \<open>series_mean\<close> and \<open>series_std\<close>, and what is proved of it holds for whatever they return.

  \<open>exact_mean\<close> and \<open>exact_std\<close> are the same two quantities in exact arithmetic: missing
  values are skipped, the standard deviation is the sample one (\<^verbatim>\<open>ddof=1\<close>), and both are
  NaN when too few values remain (none for the mean, fewer than two for the deviation).
  They agree with the floating-point results on series such as 0, 0, 0, 4 or 5, 5, 5, where
  no step rounds, and are used on such series only.
\<close>

definition exact_mean :: "npfloat list \<Rightarrow> npfloat" where
  "exact_mean xs =
     (let valid = filter (\<lambda>x. x \<noteq> NaN) xs in
      if valid = [] then NaN else np_div (np_sum valid) (Finite (real (length valid))))"

definition exact_std :: "npfloat list \<Rightarrow> npfloat" where
  "exact_std xs =
     (let valid = filter (\<lambda>x. x \<noteq> NaN) xs; n = length valid in
      if n < 2 then NaN
      else
        let avg = np_div (np_sum valid) (Finite (real n));
            sqr = map (\<lambda>x. np_mul (np_sub x avg) (np_sub x avg)) valid
        in np_sqrt (np_div (np_sum sqr) (Finite (real (n - 1)))))"

text \<open>Reading a cell as a number, as numpy arithmetic does: a boolean counts as 0 or 1.\<close>

fun as_number :: "cell \<Rightarrow> error + npfloat" where
  "as_number (Num x) = Inr x"
| "as_number (Flag b) = Inr (Finite (if b then 1 else 0))"
| "as_number (Str s) = Inl TypeError"
| "as_number (Timestamp s) = Inl TypeError"

text \<open>\<^verbatim>\<open>df[column]\<close> read as a numeric series: KeyError without the column, TypeError on a string.\<close>

fun column_values :: "frame \<Rightarrow> string \<Rightarrow> error + npfloat list" where
  "column_values [] column = Inr []"
| "column_values (r # df) column =
     (case map_of r column of
        None \<Rightarrow> Inl KeyError
      | Some c \<Rightarrow>
          (case as_number c of
             Inl e \<Rightarrow> Inl e
           | Inr x \<Rightarrow>
               (case column_values df column of
                  Inl e \<Rightarrow> Inl e
                | Inr xs \<Rightarrow> Inr (x # xs))))"

text \<open>\<^verbatim>\<open>df[name] = values\<close>: the column is overwritten, or added as the last one.\<close>

definition set_column :: "string \<Rightarrow> cell list \<Rightarrow> frame \<Rightarrow> frame" where
  "set_column name vals df = map (\<lambda>(r, v). AList.update name v r) (zip df vals)"

definition detect_zscore_anomalies ::
  "(npfloat list \<Rightarrow> npfloat) \<Rightarrow> (npfloat list \<Rightarrow> npfloat) \<Rightarrow> anomaly_config \<Rightarrow> frame \<Rightarrow> string
     \<Rightarrow> real option \<Rightarrow> error + frame" where
  "detect_zscore_anomalies series_mean series_std cfg df column threshold =
     (let threshold = (case threshold of None \<Rightarrow> z_score_threshold cfg | Some t \<Rightarrow> t) in
      case column_values df column of
        Inl e \<Rightarrow> Inl e
      | Inr xs \<Rightarrow>
          let mean = series_mean xs;
              std = series_std xs;
              z_score = (if std = Finite 0 then map (\<lambda>x. Finite 0) xs
                         else map (\<lambda>x. np_abs (np_div (np_sub x mean) std)) xs);
              is_anomaly = (if std = Finite 0 then map (\<lambda>x. False) xs
                            else map (\<lambda>z. np_greater z (Finite threshold)) z_score);
              df = set_column ''z_score'' (map Num z_score) df;
              df = set_column ''is_anomaly'' (map Flag is_anomaly) df;
              df = set_column ''expected_value'' (map (\<lambda>x. Num mean) xs) df;
              df = set_column ''detection_method'' (map (\<lambda>x. Str ''z-score'') xs) df
          in Inr df)"

text \<open>The number of rows flagged anomalous.\<close>

definition anomaly_count :: "frame \<Rightarrow> nat" where
  "anomaly_count df = length (filter (\<lambda>r. map_of r ''is_anomaly'' = Some (Flag True)) df)"

text \<open>
  The flag in the words of the specification for C2: a point is anomalous exactly when its score
  exceeds the threshold.
\<close>

definition claimed_is_anomaly :: "npfloat \<Rightarrow> real \<Rightarrow> bool" where
  "claimed_is_anomaly z threshold = np_greater z (Finite threshold)"

text \<open>Names for the parts of the result of \<^verbatim>\<open>detect_zscore_anomalies\<close>, used in the proofs.\<close>

definition scored_row :: "npfloat \<Rightarrow> npfloat \<Rightarrow> real \<Rightarrow> row \<Rightarrow> npfloat \<Rightarrow> row" where
  "scored_row mean std threshold r x =
     AList.update ''detection_method'' (Str ''z-score'')
       (AList.update ''expected_value'' (Num mean)
         (AList.update ''is_anomaly''
            (Flag (std \<noteq> Finite 0 \<and> np_greater (np_abs (np_div (np_sub x mean) std)) (Finite threshold)))
            (AList.update ''z_score''
               (Num (if std = Finite 0 then Finite 0 else np_abs (np_div (np_sub x mean) std))) r)))"

definition flagged :: "npfloat \<Rightarrow> npfloat \<Rightarrow> real \<Rightarrow> npfloat \<Rightarrow> bool" where
  "flagged mean std t x = (std \<noteq> Finite 0 \<and> np_greater (np_abs (np_div (np_sub x mean) std)) (Finite t))"

text \<open>
  \<^verbatim>\<open>generate_anomaly_insights\<close>. The two f-strings are the constructors of
  \<open>narrative\<close>, carrying what they format: the metric's display name, the date, the
  absolute deviation in percent, the direction, the value and the expected value.
  How pandas reads a date cell and prints it as \<^verbatim>\<open>%Y-%m-%d\<close> is a parameter,
  \<open>strftime\<close>, which may raise.
\<close>

datatype narrative =
    DeviationText string string npfloat string npfloat npfloat
  | UnusualText string string npfloat

definition row_insight ::
  "(cell \<Rightarrow> error + string) \<Rightarrow> string \<Rightarrow> string \<Rightarrow> row \<Rightarrow> error + narrative" where
  "row_insight strftime metric_name metric_col row =
     (case map_of row ''date'' of
        None \<Rightarrow> Inl KeyError
      | Some d \<Rightarrow>
     (case strftime d of
        Inl e \<Rightarrow> Inl e
      | Inr date_text \<Rightarrow>
     (case map_of row metric_col of
        None \<Rightarrow> Inl KeyError
      | Some v \<Rightarrow>
     (case map_of row ''expected_value'' of
        Some ex \<Rightarrow>
          (case as_number v of
             Inl e \<Rightarrow> Inl e
           | Inr value \<Rightarrow>
          (case as_number ex of
             Inl e \<Rightarrow> Inl e
           | Inr expected \<Rightarrow>
               let deviation = (if expected \<noteq> Finite 0
                                then np_mul (np_div (np_sub value expected) expected) (Finite 100)
                                else Finite 0);
                   direction = (if np_greater value expected then ''higher'' else ''lower'')
               in Inr (DeviationText metric_name date_text (np_abs deviation) direction value expected)))
      | None \<Rightarrow>
          (case as_number v of
             Inl e \<Rightarrow> Inl e
           | Inr value \<Rightarrow> Inr (UnusualText metric_name date_text value))))))"

text \<open>The loop over \<^verbatim>\<open>anomalies.head(3).iterrows()\<close>: the first exception ends it.\<close>

fun row_insights ::
  "(cell \<Rightarrow> error + string) \<Rightarrow> string \<Rightarrow> string \<Rightarrow> frame \<Rightarrow> error + narrative list" where
  "row_insights strftime metric_name metric_col [] = Inr []"
| "row_insights strftime metric_name metric_col (row # rest) =
     (case row_insight strftime metric_name metric_col row of
        Inl e \<Rightarrow> Inl e
      | Inr insight \<Rightarrow>
          (case row_insights strftime metric_name metric_col rest of
             Inl e \<Rightarrow> Inl e
           | Inr insights \<Rightarrow> Inr (insight # insights)))"

definition generate_anomaly_insights ::
  "(cell \<Rightarrow> error + string) \<Rightarrow> frame \<Rightarrow> string \<Rightarrow> error + narrative list" where
  "generate_anomaly_insights strftime anomalies metric_name =
     (if anomalies = [] then Inr []
      else
        case map_of (hd anomalies) ''metric_name'' of
          Some (Str metric_col) \<Rightarrow> row_insights strftime metric_name metric_col (take 3 anomalies)
        | _ \<Rightarrow> Inl KeyError)"

text \<open>
  An anomaly frame, as \<^verbatim>\<open>detect_metric_anomalies\<close> builds them: every row has a date that
  prints, the name \<open>metric_col\<close> of its metric column under \<^verbatim>\<open>metric_name\<close>, a number in
  that column, and a number under \<^verbatim>\<open>expected_value\<close> if that column is there.
\<close>

definition numeric_cell :: "cell \<Rightarrow> bool" where
  "numeric_cell c = (case c of Num x \<Rightarrow> True | Flag b \<Rightarrow> True | _ \<Rightarrow> False)"

definition anomaly_row :: "(cell \<Rightarrow> error + string) \<Rightarrow> string \<Rightarrow> row \<Rightarrow> bool" where
  "anomaly_row strftime metric_col row =
     ((case map_of row ''date'' of None \<Rightarrow> False | Some d \<Rightarrow> \<not> isl (strftime d))
      \<and> map_of row ''metric_name'' = Some (Str metric_col)
      \<and> (case map_of row metric_col of None \<Rightarrow> False | Some v \<Rightarrow> numeric_cell v)
      \<and> (case map_of row ''expected_value'' of None \<Rightarrow> True | Some ex \<Rightarrow> numeric_cell ex))"

definition anomaly_frame :: "(cell \<Rightarrow> error + string) \<Rightarrow> string \<Rightarrow> frame \<Rightarrow> bool" where
  "anomaly_frame strftime metric_col anomalies = list_all (anomaly_row strftime metric_col) anomalies"

text \<open>
  What the loop body needs of a row to produce its narrative: a date that prints, a number
  in the metric column, and a number under \<^verbatim>\<open>expected_value\<close> if that column is there.
\<close>

definition narratable_row :: "(cell \<Rightarrow> error + string) \<Rightarrow> string \<Rightarrow> row \<Rightarrow> bool" where
  "narratable_row strftime metric_col row =
     ((case map_of row ''date'' of None \<Rightarrow> False | Some d \<Rightarrow> \<not> isl (strftime d))
      \<and> (case map_of row metric_col of None \<Rightarrow> False | Some v \<Rightarrow> numeric_cell v)
      \<and> (case map_of row ''expected_value'' of None \<Rightarrow> True | Some ex \<Rightarrow> numeric_cell ex))"

text \<open>The parts of a row's narrative, for rows of an anomaly frame.\<close>

definition row_date :: "(cell \<Rightarrow> error + string) \<Rightarrow> row \<Rightarrow> string" where
  "row_date strftime row = (case map_of row ''date'' of Some d \<Rightarrow> projr (strftime d) | None \<Rightarrow> [])"

definition row_number :: "row \<Rightarrow> string \<Rightarrow> npfloat" where
  "row_number row col = (case map_of row col of Some c \<Rightarrow> projr (as_number c) | None \<Rightarrow> NaN)"

definition percent_deviation :: "npfloat \<Rightarrow> npfloat \<Rightarrow> npfloat" where
  "percent_deviation value expected =
     (if expected \<noteq> Finite 0 then np_mul (np_div (np_sub value expected) expected) (Finite 100)
      else Finite 0)"

definition narrative_of ::
  "(cell \<Rightarrow> error + string) \<Rightarrow> string \<Rightarrow> string \<Rightarrow> row \<Rightarrow> narrative" where
  "narrative_of strftime metric_name metric_col row =
     (if map_of row ''expected_value'' = None then
        UnusualText metric_name (row_date strftime row) (row_number row metric_col)
      else
        DeviationText metric_name (row_date strftime row)
          (np_abs (percent_deviation (row_number row metric_col) (row_number row ''expected_value'')))
          (if np_greater (row_number row metric_col) (row_number row ''expected_value'')
           then ''higher'' else ''lower'')
          (row_number row metric_col) (row_number row ''expected_value''))"

text \<open>
  The selection in the words of the specification for C5: the three rows with the most recent
  dates, most recent first.
\<close>

definition most_recent_three :: "frame \<Rightarrow> frame" where
  "most_recent_three anomalies =
     take 3 (rev (sort_key (\<lambda>row. case map_of row ''date'' of Some (Str d) \<Rightarrow> d | _ \<Rightarrow> []) anomalies))"

text \<open>A date printer for ISO timestamps, as SQLite stores them: the first ten characters.\<close>

definition iso_strftime :: "cell \<Rightarrow> error + string" where
  "iso_strftime c = (case c of Str s \<Rightarrow> Inr (take 10 s) | _ \<Rightarrow> Inl ValueError)"

subsection \<open>Forecast accuracy (\<^verbatim>\<open>models/forecasting.py\<close>)\<close>

text \<open>
  The actual frame has the columns \<^verbatim>\<open>ds\<close> and \<^verbatim>\<open>y\<close>, the forecast frame \<^verbatim>\<open>ds\<close> and
  \<^verbatim>\<open>yhat\<close> (its other columns are dropped before the merge): both are lists of pairs of a
  date and a value. The inner merge on \<^verbatim>\<open>ds\<close> keeps the order of the left keys and pairs
  every actual row with every forecast row of the same date.
\<close>

definition merge_on_ds ::
  "(string \<times> npfloat) list \<Rightarrow> (string \<times> npfloat) list \<Rightarrow> (npfloat \<times> npfloat) list" where
  "merge_on_ds actual_df forecast_df =
     concat (map (\<lambda>a. map (\<lambda>f. (snd a, snd f)) (filter (\<lambda>f. fst f = fst a) forecast_df)) actual_df)"

text \<open>\<^verbatim>\<open>np.mean\<close>: the sum over the count, NaN included.\<close>

definition np_mean :: "npfloat list \<Rightarrow> npfloat" where
  "np_mean xs = np_div (np_sum xs) (Finite (real (length xs)))"

text \<open>Rounding to the nearest integer, ties to the even one, as \<^verbatim>\<open>np.rint\<close> does.\<close>

definition rint :: "real \<Rightarrow> real" where
  "rint x =
     (let f = \<lfloor>x\<rfloor>; d = x - of_int f in
      if d < 1 / 2 then of_int f
      else if 1 / 2 < d then of_int (f + 1)
      else if even f then of_int f else of_int (f + 1))"

text \<open>\<^verbatim>\<open>round(x, n)\<close> on a numpy float: scale by \<open>10\<^sup>n\<close>, round to an integer, scale back.\<close>

fun np_round :: "npfloat \<Rightarrow> nat \<Rightarrow> npfloat" where
  "np_round (Finite x) n = Finite (rint (x * 10 ^ n) / 10 ^ n)"
| "np_round x n = x"

record accuracy =
  rmse :: npfloat
  mae :: npfloat
  mape :: npfloat

definition calculate_accuracy ::
  "(string \<times> npfloat) list \<Rightarrow> (string \<times> npfloat) list \<Rightarrow> accuracy" where
  "calculate_accuracy actual_df forecast_df =
     (let merged = merge_on_ds actual_df forecast_df in
      if length merged = 0 then \<lparr>rmse = Finite 0, mae = Finite 0, mape = Finite 0\<rparr>
      else
        let actual = map fst merged;
            predicted = map snd merged;
            rmse = np_sqrt (np_mean (map (\<lambda>(a, p). np_mul (np_sub a p) (np_sub a p))
                                         (zip actual predicted)));
            mae = np_mean (map (\<lambda>(a, p). np_abs (np_sub a p)) (zip actual predicted));
            mape = np_mul (np_mean (map (\<lambda>(a, p). np_abs (np_div (np_sub a p)
                                                          (if a \<noteq> Finite 0 then a else Finite 1)))
                                         (zip actual predicted)))
                          (Finite 100)
        in \<lparr>rmse = np_round rmse 2, mae = np_round mae 2, mape = np_round mape 2\<rparr>)"

text \<open>
  The three measures on finite pairs of an actual and a predicted value, before rounding.
  \<open>claimed_mape\<close> is the MAPE in the words of the specification for C4, with the
  denominator \<open>max (|actual|, 1)\<close>; \<open>guarded_mape\<close> is the one the code computes, with the
  denominator replaced by 1 only when the actual value is 0.
\<close>

definition root_mean_square_error :: "(real \<times> real) list \<Rightarrow> real" where
  "root_mean_square_error ps = sqrt (sum_list (map (\<lambda>(a, p). (a - p)\<^sup>2) ps) / real (length ps))"

definition mean_absolute_error :: "(real \<times> real) list \<Rightarrow> real" where
  "mean_absolute_error ps = sum_list (map (\<lambda>(a, p). \<bar>a - p\<bar>) ps) / real (length ps)"

definition claimed_mape :: "(real \<times> real) list \<Rightarrow> real" where
  "claimed_mape ps = sum_list (map (\<lambda>(a, p). \<bar>a - p\<bar> / max \<bar>a\<bar> 1) ps) / real (length ps) * 100"

definition guarded_mape :: "(real \<times> real) list \<Rightarrow> real" where
  "guarded_mape ps =
     sum_list (map (\<lambda>(a, p). \<bar>a - p\<bar> / (if a \<noteq> 0 then \<bar>a\<bar> else 1)) ps) / real (length ps) * 100"

definition finite_pair :: "real \<times> real \<Rightarrow> npfloat \<times> npfloat" where
  "finite_pair ap = (Finite (fst ap), Finite (snd ap))"

subsection \<open>ETL: cleaning and loading (\<^verbatim>\<open>etl/utils.py\<close>, \<^verbatim>\<open>etl/etl_pipeline.py\<close>)\<close>

text \<open>
  A frame as \<^verbatim>\<open>pd.read_csv\<close> builds it: the columns with their dtypes, and the rows as
  lists of cells in column order. The missing value of every dtype (NaN, None, NaT) is
  \<open>Num NaN\<close>.
\<close>

datatype dtype = Float64 | Int64 | Object | Datetime64 | Boolean

record dataframe =
  columns :: "(string \<times> dtype) list"
  rows :: "cell list list"

definition wf_dataframe :: "dataframe \<Rightarrow> bool" where
  "wf_dataframe df = list_all (\<lambda>r. length r = length (columns df)) (rows df)"

definition isnull :: "cell \<Rightarrow> bool" where
  "isnull c = (c = Num NaN)"

definition column_cells :: "dataframe \<Rightarrow> nat \<Rightarrow> cell list" where
  "column_cells df j = map (\<lambda>r. r ! j) (rows df)"

fun index_of :: "string \<Rightarrow> string list \<Rightarrow> nat option" where
  "index_of name [] = None"
| "index_of name (c # cs) = (if c = name then Some 0 else map_option Suc (index_of name cs))"

text \<open>
  \<^verbatim>\<open>pd.to_datetime\<close> on a column: how one cell is parsed is the parameter \<open>to_datetime\<close>,
  which may raise; the first cell that raises ends the conversion.
\<close>

fun convert_cells :: "(cell \<Rightarrow> error + cell) \<Rightarrow> cell list \<Rightarrow> error + cell list" where
  "convert_cells to_datetime [] = Inr []"
| "convert_cells to_datetime (c # cs) =
     (case to_datetime c of
        Inl e \<Rightarrow> Inl e
      | Inr t \<Rightarrow>
          (case convert_cells to_datetime cs of
             Inl e \<Rightarrow> Inl e
           | Inr ts \<Rightarrow> Inr (t # ts)))"

definition convert_dates ::
  "(cell \<Rightarrow> error + cell) \<Rightarrow> string \<Rightarrow> dataframe \<Rightarrow> error + dataframe" where
  "convert_dates to_datetime date_column df =
     (case index_of date_column (map fst (columns df)) of
        None \<Rightarrow> Inr df
      | Some j \<Rightarrow>
          (case convert_cells to_datetime (column_cells df j) of
             Inl e \<Rightarrow> Inl e
           | Inr ts \<Rightarrow>
               Inr (df\<lparr>columns := (columns df)[j := (date_column, Datetime64)],
                       rows := map (\<lambda>(r, t). r[j := t]) (zip (rows df) ts)\<rparr>)))"

text \<open>\<^verbatim>\<open>drop_duplicates()\<close>: of equal rows the first is kept, and the order stays.\<close>

fun drop_duplicates :: "'a list \<Rightarrow> 'a list" where
  "drop_duplicates [] = []"
| "drop_duplicates (x # xs) = x # drop_duplicates (filter (\<lambda>y. y \<noteq> x) xs)"

text \<open>\<^verbatim>\<open>Series.median()\<close>: the missing values are skipped; NaN when nothing remains.\<close>

fun np_insort :: "npfloat \<Rightarrow> npfloat list \<Rightarrow> npfloat list" where
  "np_insort x [] = [x]"
| "np_insort x (y # ys) = (if np_less y x then y # np_insort x ys else x # y # ys)"

definition np_sort :: "npfloat list \<Rightarrow> npfloat list" where
  "np_sort xs = foldr np_insort xs []"

definition cell_number :: "cell \<Rightarrow> npfloat" where
  "cell_number c = (case c of Num x \<Rightarrow> x | _ \<Rightarrow> NaN)"

definition pd_median :: "cell list \<Rightarrow> npfloat" where
  "pd_median cs =
     (let valid = np_sort (filter (\<lambda>x. x \<noteq> NaN) (map cell_number cs)); n = length valid in
      if n = 0 then NaN
      else if odd n then valid ! (n div 2)
      else np_div (np_add (valid ! (n div 2 - 1)) (valid ! (n div 2))) (Finite 2))"

text \<open>\<^verbatim>\<open>df[col] = df[col].fillna(v)\<close> on the column at index \<open>j\<close>.\<close>

definition fillna_column :: "nat \<Rightarrow> cell \<Rightarrow> dataframe \<Rightarrow> dataframe" where
  "fillna_column j v df = df\<lparr>rows := map (\<lambda>r. if isnull (r ! j) then r[j := v] else r) (rows df)\<rparr>"

text \<open>The loop over the numeric columns and the loop over the categorical ones.\<close>

fun fill_numeric :: "nat list \<Rightarrow> dataframe \<Rightarrow> dataframe" where
  "fill_numeric [] df = df"
| "fill_numeric (col # cols) df =
     fill_numeric cols
       (if list_ex isnull (column_cells df col)
        then fillna_column col (Num (pd_median (column_cells df col))) df
        else df)"

fun fill_categorical :: "string \<Rightarrow> nat list \<Rightarrow> dataframe \<Rightarrow> dataframe" where
  "fill_categorical date_column [] df = df"
| "fill_categorical date_column (col # cols) df =
     fill_categorical date_column cols
       (if fst (columns df ! col) \<noteq> date_column \<and> list_ex isnull (column_cells df col)
        then fillna_column col (Str ''Unknown'') df
        else df)"

definition select_dtypes :: "dtype list \<Rightarrow> dataframe \<Rightarrow> nat list" where
  "select_dtypes include df =
     filter (\<lambda>j. snd (columns df ! j) \<in> set include) [0..<length (columns df)]"

definition clean_dataframe ::
  "(cell \<Rightarrow> error + cell) \<Rightarrow> dataframe \<Rightarrow> string \<Rightarrow> error + dataframe" where
  "clean_dataframe to_datetime df date_column =
     (case convert_dates to_datetime date_column df of
        Inl e \<Rightarrow> Inl e
      | Inr df \<Rightarrow>
          let df = df\<lparr>rows := drop_duplicates (rows df)\<rparr>;
              numeric_cols = select_dtypes [Float64, Int64] df;
              df = fill_numeric numeric_cols df;
              categorical_cols = select_dtypes [Object] df;
              df = fill_categorical date_column categorical_cols df
          in Inr df)"

text \<open>
  The store maps a table name to its content; the data directory maps a file name to
  what \<^verbatim>\<open>pd.read_csv\<close> reads from it. \<^verbatim>\<open>DataFrame.to_sql\<close> fails on an existing table
  with \<^verbatim>\<open>if_exists='fail'\<close>, overwrites it with \<^verbatim>\<open>'replace'\<close>, and adds the rows to it
  with \<^verbatim>\<open>'append'\<close>.
\<close>

type_synonym database = "string \<rightharpoonup> dataframe"

type_synonym data_dir = "string \<rightharpoonup> dataframe"

definition to_sql :: "dataframe \<Rightarrow> string \<Rightarrow> string \<Rightarrow> database \<Rightarrow> error + database" where
  "to_sql df table_name if_exists db =
     (case db table_name of
        None \<Rightarrow> Inr (db(table_name \<mapsto> df))
      | Some old \<Rightarrow>
          if if_exists = ''fail'' then Inl ValueError
          else if if_exists = ''replace'' then Inr (db(table_name \<mapsto> df))
          else if if_exists = ''append'' then
            (if map fst (columns old) = map fst (columns df)
             then Inr (db(table_name \<mapsto> old\<lparr>rows := rows old @ rows df\<rparr>))
             else Inl DatabaseError)
          else Inl ValueError)"

definition load_csv_to_db ::
  "(cell \<Rightarrow> error + cell) \<Rightarrow> data_dir \<Rightarrow> string \<Rightarrow> string \<Rightarrow> string \<Rightarrow> database
     \<Rightarrow> (error + nat) \<times> database" where
  "load_csv_to_db to_datetime files csv_path table_name if_exists db =
     (case files csv_path of
        None \<Rightarrow> (Inl FileNotFoundError, db)
      | Some df \<Rightarrow>
          (case clean_dataframe to_datetime df ''date'' of
             Inl e \<Rightarrow> (Inl e, db)
           | Inr df \<Rightarrow>
               (case to_sql df table_name if_exists db of
                  Inl e \<Rightarrow> (Inl e, db)
                | Inr db' \<Rightarrow> (Inr (length (rows df)), db'))))"

text \<open>
  \<^verbatim>\<open>OpsIntelETL._load_all_data\<close>: the loop over the five tables, a failed load counting
  for 0 rows; it returns \<^verbatim>\<open>self.load_results\<close> and the store.
\<close>

definition tables :: "string list" where
  "tables = [''finance'', ''sales'', ''operations'', ''hr'', ''it_tickets'']"

fun load_tables ::
  "(cell \<Rightarrow> error + cell) \<Rightarrow> data_dir \<Rightarrow> string list \<Rightarrow> (string \<times> nat) list \<times> database
     \<Rightarrow> (string \<times> nat) list \<times> database" where
  "load_tables to_datetime files [] (load_results, db) = (load_results, db)"
| "load_tables to_datetime files (table # rest) (load_results, db) =
     (case load_csv_to_db to_datetime files (table @ ''.csv'') table ''replace'' db of
        (Inr rows_loaded, db') \<Rightarrow>
          load_tables to_datetime files rest (AList.update table rows_loaded load_results, db')
      | (Inl e, db') \<Rightarrow>
          load_tables to_datetime files rest (AList.update table 0 load_results, db'))"

definition load_all_data ::
  "(cell \<Rightarrow> error + cell) \<Rightarrow> data_dir \<Rightarrow> database \<Rightarrow> (string \<times> nat) list \<times> database" where
  "load_all_data to_datetime files db = load_tables to_datetime files tables ([], db)"

text \<open>A date parser for ISO dates: a date string becomes a timestamp, a missing value stays.\<close>

definition iso_to_datetime :: "cell \<Rightarrow> error + cell" where
  "iso_to_datetime c =
     (case c of
        Str s \<Rightarrow> if length s = 10 then Inr (Timestamp (s @ '' 00:00:00'')) else Inl ValueError
      | Num x \<Rightarrow> if x = NaN then Inr (Num NaN) else Inl ValueError
      | Timestamp s \<Rightarrow> Inr (Timestamp s)
      | Flag b \<Rightarrow> Inl TypeError)"

text \<open>Names for the steps of the two filling loops and for the outcome of a load, used in the proofs.\<close>

definition numeric_step :: "nat \<Rightarrow> dataframe \<Rightarrow> dataframe" where
  "numeric_step col df =
     (if list_ex isnull (column_cells df col)
      then fillna_column col (Num (pd_median (column_cells df col))) df else df)"

definition categorical_step :: "string \<Rightarrow> nat \<Rightarrow> dataframe \<Rightarrow> dataframe" where
  "categorical_step date_column col df =
     (if fst (columns df ! col) \<noteq> date_column \<and> list_ex isnull (column_cells df col)
      then fillna_column col (Str ''Unknown'') df else df)"

text \<open>A cell holding a finite number or the missing value.\<close>

definition finite_or_null :: "cell \<Rightarrow> bool" where
  "finite_or_null c = (case c of Num (Finite x) \<Rightarrow> True | Num NaN \<Rightarrow> True | _ \<Rightarrow> False)"

definition cleaned_cell :: "string \<Rightarrow> (string \<times> dtype) list \<Rightarrow> cell list list \<Rightarrow> nat \<Rightarrow> nat \<Rightarrow> cell" where
  "cleaned_cell dc cols d i j =
     (if snd (cols ! j) \<in> {Float64, Int64} \<and> isnull (d ! i ! j)
      then Num (pd_median (map (\<lambda>r. r ! j) d))
      else if snd (cols ! j) = Object \<and> fst (cols ! j) \<noteq> dc \<and> isnull (d ! i ! j)
      then Str ''Unknown''
      else d ! i ! j)"

definition loaded :: "(cell \<Rightarrow> error + cell) \<Rightarrow> data_dir \<Rightarrow> string \<Rightarrow> dataframe option" where
  "loaded to_datetime files table =
     (case files (table @ ''.csv'') of
        None \<Rightarrow> None
      | Some df \<Rightarrow> (case clean_dataframe to_datetime df ''date'' of Inl e \<Rightarrow> None | Inr c \<Rightarrow> Some c))"

definition after_load ::
  "(cell \<Rightarrow> error + cell) \<Rightarrow> data_dir \<Rightarrow> string list \<Rightarrow> database \<Rightarrow> database" where
  "after_load to_datetime files ts db =
     (\<lambda>t. if t \<in> set ts then (case loaded to_datetime files t of Some c \<Rightarrow> Some c | None \<Rightarrow> db t)
          else db t)"

definition rows_loaded_of :: "(cell \<Rightarrow> error + cell) \<Rightarrow> data_dir \<Rightarrow> string \<Rightarrow> nat" where
  "rows_loaded_of to_datetime files table =
     (case loaded to_datetime files table of Some c \<Rightarrow> length (rows c) | None \<Rightarrow> 0)"

text \<open>
  \<^verbatim>\<open>detect_metric_anomalies\<close> reads the store with
  \<^verbatim>\<open>SELECT date, metric FROM table WHERE metric IS NOT NULL ORDER BY date\<close>.
  What SQLite hands back for a stored cell: a timestamp as its text, a boolean as 0 or 1.
  Rows are ordered by the text of their date (a date that is not text sorts first), rows
  of equal date staying in table order.
\<close>

definition sql_cell :: "cell \<Rightarrow> cell" where
  "sql_cell c =
     (case c of
        Timestamp s \<Rightarrow> Str s
      | Flag b \<Rightarrow> Num (Finite (if b then 1 else 0))
      | _ \<Rightarrow> c)"

definition date_key :: "string \<Rightarrow> row \<Rightarrow> string" where
  "date_key date_column r = (case map_of r date_column of Some (Str d) \<Rightarrow> d | _ \<Rightarrow> [])"

definition query_metric :: "database \<Rightarrow> string \<Rightarrow> string \<Rightarrow> string \<Rightarrow> error + frame" where
  "query_metric db table_name date_column metric_column =
     (case db table_name of
        None \<Rightarrow> Inl DatabaseError
      | Some t \<Rightarrow>
          (case index_of date_column (map fst (columns t)) of
             None \<Rightarrow> Inl DatabaseError
           | Some d \<Rightarrow>
               (case index_of metric_column (map fst (columns t)) of
                  None \<Rightarrow> Inl DatabaseError
                | Some m \<Rightarrow>
                    Inr (sort_key (date_key date_column)
                           (map (\<lambda>r. [(date_column, sql_cell (r ! d)), (metric_column, sql_cell (r ! m))])
                              (filter (\<lambda>r. \<not> isnull (r ! m)) (rows t)))))))"

text \<open>
  The isolation forest of scikit-learn is outside this development: it is the parameter
  \<open>isolation_forest\<close>.
\<close>

definition detect_metric_anomalies ::
  "(npfloat list \<Rightarrow> npfloat) \<Rightarrow> (npfloat list \<Rightarrow> npfloat)
     \<Rightarrow> (frame \<Rightarrow> string list \<Rightarrow> error + frame) \<Rightarrow> anomaly_config \<Rightarrow> database
     \<Rightarrow> string \<Rightarrow> string \<Rightarrow> string \<Rightarrow> string \<Rightarrow> error + frame" where
  "detect_metric_anomalies series_mean series_std isolation_forest cfg db table_name metric_column
       date_column method =
     (case query_metric db table_name date_column metric_column of
        Inl e \<Rightarrow> Inl e
      | Inr df \<Rightarrow>
          if df = [] then Inr []
          else
            (case (if method = ''z-score''
                   then detect_zscore_anomalies series_mean series_std cfg df metric_column None
                   else if method = ''isolation_forest'' then isolation_forest df [metric_column]
                   else Inl ValueError) of
               Inl e \<Rightarrow> Inl e
             | Inr result_df \<Rightarrow>
                 Inr (map (\<lambda>r. AList.update ''table_name'' (Str table_name)
                                 (AList.update ''metric_name'' (Str metric_column) r))
                        (filter (\<lambda>r. map_of r ''is_anomaly'' = Some (Flag True)) result_df))))"

text \<open>The names of the columns the engine adds to a frame.\<close>

definition engine_columns :: "string list" where
  "engine_columns = [''z_score'', ''is_anomaly'', ''expected_value'', ''detection_method'',
                     ''metric_name'', ''table_name'']"

text \<open>The two columns \<^verbatim>\<open>detect_metric_anomalies\<close> adds to a flagged row.\<close>

definition attributed :: "string \<Rightarrow> string \<Rightarrow> row \<Rightarrow> row" where
  "attributed table_name metric_column r =
     AList.update ''table_name'' (Str table_name) (AList.update ''metric_name'' (Str metric_column) r)"

section \<open>Theorems\<close>

subsection \<open>C9: a trigger during a running refresh is rejected\<close>

text \<open>
  C9. Whenever a refresh is triggered while the shared refresh status is \<open>running\<close>, the
  handler answers at once with the conflict response (HTTP 409), starts no background
  task (the task queue is unchanged), and leaves the \<open>refresh_status\<close> record (status,
  last_refresh, message) as it was.
\<close>

theorem refresh_rejected_while_running:
  assumes "status (refresh_status st) = ''running''"
  shows "status_code (fst (refresh_data request st)) = 409
       \<and> content (fst (refresh_data request st)) =
           [(''status'', ''error''), (''message'', ''Refresh already in progress'')]
       \<and> background_tasks (snd (refresh_data request st)) = background_tasks st
       \<and> refresh_status (snd (refresh_data request st)) = refresh_status st
       \<and> snd (refresh_data request st) = st"
  using assms by (simp add: refresh_data_def)

theorem refresh_rejected_while_running_witness:
  "status_code (fst (refresh_data
      \<lparr>regenerate_data = False, run_forecasting = True, run_anomaly_detection = True, run_insights = True\<rparr>
      \<lparr>refresh_status = refresh_data_task_begin initial_refresh_status, background_tasks = []\<rparr>)) = 409
   \<and> snd (refresh_data
      \<lparr>regenerate_data = False, run_forecasting = True, run_anomaly_detection = True, run_insights = True\<rparr>
      \<lparr>refresh_status = refresh_data_task_begin initial_refresh_status, background_tasks = []\<rparr>)
     = \<lparr>refresh_status = \<lparr>last_refresh = None, status = ''running'', message = ''Running ETL pipeline...''\<rparr>,
        background_tasks = []\<rparr>"
proof -
  let ?st = "\<lparr>refresh_status = refresh_data_task_begin initial_refresh_status, background_tasks = []\<rparr>"
  have running: "status (refresh_status ?st) = ''running''"
    by (simp add: refresh_data_task_begin_def initial_refresh_status_def)
  show ?thesis
    using refresh_rejected_while_running [OF running]
    by (simp add: refresh_data_task_begin_def initial_refresh_status_def)
qed


subsection \<open>C1: the revenue insight\<close>

lemma length_query_recent_finance: "length (query_recent_finance finance) = min 6 (length finance)"
  by (simp add: query_recent_finance_def)

lemma analyze_revenue_trends_short:
  "length finance < 2 \<Longrightarrow> analyze_revenue_trends th finance = []"
  by (simp add: analyze_revenue_trends_def length_query_recent_finance)

lemma two_rows:
  "d1 < d2 \<Longrightarrow> revenue_window [\<lparr>date = d1, revenue = a, profit_margin_pct = m1\<rparr>,
       \<lparr>date = d2, revenue = b, profit_margin_pct = m2\<rparr>] = [\<lparr>date = d1, revenue = a, profit_margin_pct = m1\<rparr>,
       \<lparr>date = d2, revenue = b, profit_margin_pct = m2\<rparr>]"
  by (auto simp add: revenue_window_def query_recent_finance_def)


lemma analyze_revenue_trends_unfold:
  assumes "2 \<le> length finance"
  shows "analyze_revenue_trends KPI_THRESHOLDS finance =
      \<lparr>date = date (last (revenue_window finance)), category = ''finance'',
        insight_text = snd (revenue_class (growth_of (revenue_window finance))),
        severity = fst (revenue_class (growth_of (revenue_window finance))),
        metric_value = NpFloat (growth_of (revenue_window finance))\<rparr> # margin_insights (revenue_window finance)"
proof -
  have l: "\<not> length (query_recent_finance finance) < 2"
    using assms by (simp add: length_query_recent_finance)
  show ?thesis
    by (simp add: analyze_revenue_trends_def l revenue_window_def
       growth_of_def KPI_THRESHOLDS_def Let_def margin_insights_def revenue_class_def split_def
       del: np_div.simps np_mul.simps np_less.simps np_abs.simps)
qed

lemma margin_not_revenue: "filter (\<lambda>i. is_revenue_text (insight_text i)) (margin_insights w) = []"
  by (simp add: margin_insights_def Let_def)

lemma revenue_class_is_revenue: "is_revenue_text (snd (revenue_class g))"
  by (simp add: revenue_class_def)

lemma margin_not_six:
  "filter (\<lambda>i. severity i = ''info'' \<and> category i = ''finance'' \<and> metric_value i = NpFloat (Finite 6))
     (margin_insights w) = []"
  by (auto simp add: margin_insights_def Let_def np_greater_def)


lemma window_two:
  "sort_key date (query_recent_finance
      [\<lparr>date = ''2024-01-31'', revenue = a, profit_margin_pct = m1\<rparr>,
       \<lparr>date = ''2024-02-29'', revenue = b, profit_margin_pct = m2\<rparr>])
   = [\<lparr>date = ''2024-01-31'', revenue = a, profit_margin_pct = m1\<rparr>,
      \<lparr>date = ''2024-02-29'', revenue = b, profit_margin_pct = m2\<rparr>]"
  using two_rows [of "''2024-01-31''" "''2024-02-29''" a m1 b m2]
  by (simp add: revenue_window_def)

text \<open>
  C1 (amended). For every finance history with at least two rows,
  \<open>analyze_revenue_trends\<close> emits exactly one revenue insight, first in its result,
  of category finance, whose metric value is the month-over-month growth rate
  \<open>g = (latest_revenue - prev_revenue) / prev_revenue * 100\<close> of the two latest rows. It is
  classified: info severity with the "accelerated" (good) text when \<open>g > 5\<close> (strictly),
  critical when \<open>g < -5\<close>, warning when \<open>g < 0\<close>, and info with the "steady growth" text
  otherwise, so that \<open>g = 5\<close> exactly is steady growth. In particular the window with
  revenues 100 then 106 gives \<open>g = 6\<close> and exactly one info-severity finance insight whose
  metric value is 6.
\<close>

theorem revenue_insight_classification:
 "(2 \<le> length finance \<longrightarrow>
   (let w = sort_key date (query_recent_finance finance);
        latest_revenue = revenue (last w);
        prev_revenue = revenue (w ! (length w - 2));
        g = np_mul (np_div (np_sub latest_revenue prev_revenue) prev_revenue) (Finite 100);
        r = analyze_revenue_trends KPI_THRESHOLDS finance
    in length (filter (\<lambda>i. is_revenue_text (insight_text i)) r) = 1
     \<and> is_revenue_text (insight_text (hd r)) \<and> category (hd r) = ''finance'' \<and> metric_value (hd r) = NpFloat g
     \<and> (severity (hd r), insight_text (hd r)) =
         (if np_greater g (Finite 5) then (''info'', RevenueAccelerated g)
          else if np_less g (Finite (- 5)) then (''critical'', RevenueDeclined (np_abs g))
          else if np_less g (Finite 0) then (''warning'', RevenueSlowed g)
          else (''info'', RevenueSteady g))))
  \<and> (d1 < d2 \<longrightarrow>
   (let r = analyze_revenue_trends KPI_THRESHOLDS
            [\<lparr>date = d1, revenue = Finite 100, profit_margin_pct = m1\<rparr>,
             \<lparr>date = d2, revenue = Finite 106, profit_margin_pct = m2\<rparr>]
     in metric_value (hd r) = NpFloat (Finite 6) \<and> severity (hd r) = ''info''
      \<and> insight_text (hd r) = RevenueAccelerated (Finite 6)
      \<and> length (filter (\<lambda>i. severity i = ''info'' \<and> category i = ''finance''
                                \<and> metric_value i = NpFloat (Finite 6)) r) = 1))"
proof (intro conjI impI)
  assume len: "2 \<le> length finance"
  note u = analyze_revenue_trends_unfold [OF len]
  show "let w = sort_key date (query_recent_finance finance);
        latest_revenue = revenue (last w);
        prev_revenue = revenue (w ! (length w - 2));
        g = np_mul (np_div (np_sub latest_revenue prev_revenue) prev_revenue) (Finite 100);
        r = analyze_revenue_trends KPI_THRESHOLDS finance
    in length (filter (\<lambda>i. is_revenue_text (insight_text i)) r) = 1
     \<and> is_revenue_text (insight_text (hd r)) \<and> category (hd r) = ''finance'' \<and> metric_value (hd r) = NpFloat g
     \<and> (severity (hd r), insight_text (hd r)) =
         (if np_greater g (Finite 5) then (''info'', RevenueAccelerated g)
          else if np_less g (Finite (- 5)) then (''critical'', RevenueDeclined (np_abs g))
          else if np_less g (Finite 0) then (''warning'', RevenueSlowed g)
          else (''info'', RevenueSteady g))"
    unfolding Let_def revenue_window_def [symmetric] growth_of_def [symmetric]
      revenue_class_def [symmetric] u
    by (simp add: margin_not_revenue revenue_class_is_revenue
          del: np_div.simps np_mul.simps np_less.simps np_abs.simps)
next
  assume lt: "d1 < d2"
  have len: "2 \<le> length [\<lparr>date = d1, revenue = Finite 100, profit_margin_pct = m1\<rparr>,
             \<lparr>date = d2, revenue = Finite 106, profit_margin_pct = m2\<rparr>]" by simp
  show "let r = analyze_revenue_trends KPI_THRESHOLDS
            [\<lparr>date = d1, revenue = Finite 100, profit_margin_pct = m1\<rparr>,
             \<lparr>date = d2, revenue = Finite 106, profit_margin_pct = m2\<rparr>]
     in metric_value (hd r) = NpFloat (Finite 6) \<and> severity (hd r) = ''info''
      \<and> insight_text (hd r) = RevenueAccelerated (Finite 6)
      \<and> length (filter (\<lambda>i. severity i = ''info'' \<and> category i = ''finance''
                                \<and> metric_value i = NpFloat (Finite 6)) r) = 1"
    unfolding Let_def analyze_revenue_trends_unfold [OF len] two_rows [OF lt]
    by (simp add: margin_not_six growth_of_def revenue_class_def np_greater_def)
qed

theorem revenue_insight_classification_witness:
  "(let r = analyze_revenue_trends KPI_THRESHOLDS
       [\<lparr>date = ''2024-01-31'', revenue = Finite 100, profit_margin_pct = Finite 15\<rparr>,
        \<lparr>date = ''2024-02-29'', revenue = Finite 93, profit_margin_pct = Finite 15\<rparr>]
    in length (filter (\<lambda>i. is_revenue_text (insight_text i)) r) = 1
     \<and> metric_value (hd r) = NpFloat (Finite (- 7))
     \<and> (severity (hd r), insight_text (hd r)) = (''critical'', RevenueDeclined (Finite 7)))
 \<and> (let r = analyze_revenue_trends KPI_THRESHOLDS
       [\<lparr>date = ''2024-01-31'', revenue = Finite 100, profit_margin_pct = Finite 15\<rparr>,
        \<lparr>date = ''2024-02-29'', revenue = Finite 98, profit_margin_pct = Finite 15\<rparr>]
    in length (filter (\<lambda>i. is_revenue_text (insight_text i)) r) = 1
     \<and> metric_value (hd r) = NpFloat (Finite (- 2))
     \<and> (severity (hd r), insight_text (hd r)) = (''warning'', RevenueSlowed (Finite (- 2))))
 \<and> (let r = analyze_revenue_trends KPI_THRESHOLDS
       [\<lparr>date = ''2024-01-31'', revenue = Finite 100, profit_margin_pct = Finite 15\<rparr>,
        \<lparr>date = ''2024-02-29'', revenue = Finite 103, profit_margin_pct = Finite 15\<rparr>]
    in length (filter (\<lambda>i. is_revenue_text (insight_text i)) r) = 1
     \<and> metric_value (hd r) = NpFloat (Finite 3)
     \<and> (severity (hd r), insight_text (hd r)) = (''info'', RevenueSteady (Finite 3)))
 \<and> (let r = analyze_revenue_trends KPI_THRESHOLDS
       [\<lparr>date = ''2024-01-31'', revenue = Finite 100, profit_margin_pct = Finite 25\<rparr>,
        \<lparr>date = ''2024-02-29'', revenue = Finite 106, profit_margin_pct = Finite 25\<rparr>]
    in metric_value (hd r) = NpFloat (Finite 6)
     \<and> (severity (hd r), insight_text (hd r)) = (''info'', RevenueAccelerated (Finite 6))
     \<and> length (filter (\<lambda>i. severity i = ''info'' \<and> category i = ''finance''
                                \<and> metric_value i = NpFloat (Finite 6)) r) = 1)"
proof -
  have lt: "''2024-01-31'' < ''2024-02-29''" by simp
  show ?thesis
    using revenue_insight_classification
            [of "[\<lparr>date = ''2024-01-31'', revenue = Finite 100, profit_margin_pct = Finite 15\<rparr>,
                  \<lparr>date = ''2024-02-29'', revenue = Finite 93, profit_margin_pct = Finite 15\<rparr>]"
                "''2024-01-31''" "''2024-02-29''" "Finite 25" "Finite 25"]
          revenue_insight_classification
            [of "[\<lparr>date = ''2024-01-31'', revenue = Finite 100, profit_margin_pct = Finite 15\<rparr>,
                  \<lparr>date = ''2024-02-29'', revenue = Finite 98, profit_margin_pct = Finite 15\<rparr>]"
                "''2024-01-31''" "''2024-02-29''" "Finite 25" "Finite 25"]
          revenue_insight_classification
            [of "[\<lparr>date = ''2024-01-31'', revenue = Finite 100, profit_margin_pct = Finite 15\<rparr>,
                  \<lparr>date = ''2024-02-29'', revenue = Finite 103, profit_margin_pct = Finite 15\<rparr>]"
                "''2024-01-31''" "''2024-02-29''" "Finite 25" "Finite 25"]
    unfolding Let_def window_two
    by (simp add: lt np_greater_def)
qed

text \<open>
  C1 as stated fails at the boundary: for revenues 100 then 105 the growth rate is
  exactly 5, which the claim puts in the good band (\<open>g \<ge> 5\<close>), while the code, testing
  \<open>growth_rate > 5\<close>, emits the steady-growth text.
\<close>

theorem revenue_good_band_counterexample:
  "let r = analyze_revenue_trends KPI_THRESHOLDS
       [\<lparr>date = ''2024-01-31'', revenue = Finite 100, profit_margin_pct = Finite 15\<rparr>,
        \<lparr>date = ''2024-02-29'', revenue = Finite 105, profit_margin_pct = Finite 15\<rparr>]
   in metric_value (hd r) = NpFloat (Finite 5)
    \<and> np_greater_eq (Finite 5) (Finite 5)
    \<and> (severity (hd r), insight_text (hd r)) = (''info'', RevenueSteady (Finite 5))
    \<and> claimed_revenue_class (Finite 5) = (''info'', RevenueAccelerated (Finite 5))
    \<and> (severity (hd r), insight_text (hd r)) \<noteq> claimed_revenue_class (Finite 5)"
proof -
  have len: "2 \<le> length [\<lparr>date = ''2024-01-31'', revenue = Finite 100, profit_margin_pct = Finite 15\<rparr>,
        \<lparr>date = ''2024-02-29'', revenue = Finite 105, profit_margin_pct = Finite 15\<rparr>]" by simp
  have lt: "''2024-01-31'' < ''2024-02-29''" by simp
  show ?thesis
    unfolding Let_def analyze_revenue_trends_unfold [OF len] two_rows [OF lt]
    by (simp add: growth_of_def revenue_class_def np_greater_def claimed_revenue_class_def
          np_greater_eq_def)
qed


subsection \<open>C8: a failing analyzer does not block the others\<close>

lemma run_analyzers_contributed:
  "run_analyzers fs acc = acc @ concat (map (\<lambda>f. contributed (snd f)) fs)"
  by (induction fs acc rule: run_analyzers.induct) simp_all

lemma save_insights_filter: "save_insights ok xs table = table @ filter ok xs"
  by (induction xs arbitrary: table) simp_all

text \<open>
  What the loop does hold: when the file can be opened and every collected metric value is
  a float, the insights of the analyzers that did not raise are returned, in domain order,
  exported, and those whose insert succeeds are appended to the table.
\<close>

lemma generate_all_insights_floats:
  assumes "open_ok env"
    and "list_all (\<lambda>i. json_serializable (metric_value i))
           (contributed finance @ contributed sales @ contributed operations
              @ contributed hr @ contributed it)"
  shows "let all_insights = contributed finance @ contributed sales @ contributed operations
                              @ contributed hr @ contributed it;
             res = generate_all_insights env finance sales operations hr it st
         in fst res = Inr all_insights
          \<and> insights_table (snd res) = insights_table st @ filter (insert_ok env) all_insights
          \<and> insights_json (snd res) = Export (length all_insights) all_insights"
  using assms
  by (simp add: generate_all_insights_def save_insights_to_json_def run_analyzers_contributed
        save_insights_filter Let_def del: filter_append)

lemma analyze_hr_metrics_growth:
  "analyze_hr_metrics KPI_THRESHOLDS
     [\<lparr>date = ''2024-01-31'', employee_count = 100, turnover_rate_pct = Finite 12,
        satisfaction_score = Finite 7, absenteeism_rate_pct = Finite 3\<rparr>,
      \<lparr>date = ''2024-02-29'', employee_count = 120, turnover_rate_pct = Finite 12,
        satisfaction_score = Finite 7, absenteeism_rate_pct = Finite 3\<rparr>]
   = [\<lparr>date = ''2024-02-29'', category = ''hr'', insight_text = TeamGrew 20,
        severity = ''info'', metric_value = NpInt 20\<rparr>]"
  by (simp add: analyze_hr_metrics_def query_recent_hr_def KPI_THRESHOLDS_def Let_def
        np_greater_def)

text \<open>
  C8 fails on the code. The finance analyzer raises (its table is missing); the HR table
  holds 100 then 120 employees with a turnover of 12%, so the HR analyzer, which does not
  raise, returns the one insight "team grew by 20" whose metric value is the
  \<^verbatim>\<open>numpy.int64\<close> 20; the IT analyzer returns a backlog insight; every insert succeeds and
  the export file can be opened. The claim has \<open>generate_all_insights\<close> return and persist the
  HR and IT insights. The code inserts them, then \<^verbatim>\<open>json.dump\<close> raises \<^verbatim>\<open>TypeError\<close> on the
  integer, outside any \<^verbatim>\<open>try\<close>: the call raises instead of returning, and the export file is
  left truncated.
\<close>

theorem hr_growth_insight_aborts_run:
  "let hr = [\<lparr>date = ''2024-01-31'', employee_count = 100, turnover_rate_pct = Finite 12,
               satisfaction_score = Finite 7, absenteeism_rate_pct = Finite 3\<rparr>,
             \<lparr>date = ''2024-02-29'', employee_count = 120, turnover_rate_pct = Finite 12,
               satisfaction_score = Finite 7, absenteeism_rate_pct = Finite 3\<rparr>];
       grew = \<lparr>date = ''2024-02-29'', category = ''hr'', insight_text = TeamGrew 20,
                severity = ''info'', metric_value = NpInt 20\<rparr>;
       backlog = \<lparr>date = ''2024-02-29'', category = ''it'', insight_text = DomainText ''backlog'',
                   severity = ''warning'', metric_value = NpFloat (Finite 15)\<rparr>;
       res = generate_all_insights \<lparr>insert_ok = (\<lambda>i. True), open_ok = True\<rparr>
               (Inl DatabaseError) (Inr []) (Inr []) (Inr (analyze_hr_metrics KPI_THRESHOLDS hr))
               (Inr [backlog])
               \<lparr>insights_table = [], self_insights = [], insights_json = NoFile\<rparr>
   in analyze_hr_metrics KPI_THRESHOLDS hr = [grew]
    \<and> fst res = Inl TypeError
    \<and> fst res \<noteq> Inr [grew, backlog]
    \<and> insights_table (snd res) = [grew, backlog]
    \<and> insights_json (snd res) = Partial"
  unfolding Let_def analyze_hr_metrics_growth
  by (simp add: generate_all_insights_def save_insights_to_json_def Let_def)


subsection \<open>C2 and C3: z-score anomalies\<close>


lemma column_values_length:
  "column_values df column = Inr xs \<Longrightarrow> length xs = length df"
  by (induction df arbitrary: xs) (auto split: option.splits sum.splits)

lemma zip_map_zip:
  "zip (map h (zip df xs)) xs = map (\<lambda>p. (h p, snd p)) (zip df xs)"
proof (induction df arbitrary: xs)
  case Nil
  then show ?case by simp
next
  case (Cons r df)
  then show ?case by (cases xs) simp_all
qed

lemma set_column_map:
  "set_column name (map f xs) (map h (zip df xs))
     = map (\<lambda>p. AList.update name (f (snd p)) (h p)) (zip df xs)"
  by (simp add: set_column_def zip_map2 zip_map_zip split_def)

lemma set_column_first:
  "length xs = length df \<Longrightarrow>
   set_column name (map f xs) df = map (\<lambda>p. AList.update name (f (snd p)) (fst p)) (zip df xs)"
  using set_column_map [of name f xs fst df] by simp

lemma detect_zscore_anomalies_rows:
  assumes "column_values df column = Inr xs"
  shows "detect_zscore_anomalies series_mean series_std cfg df column (Some t)
           = Inr (map (\<lambda>p. scored_row (series_mean xs) (series_std xs) t (fst p) (snd p)) (zip df xs))"
proof -
  have len: "length xs = length df" using assms by (rule column_values_length)
  show ?thesis
    using assms
    by (simp add: detect_zscore_anomalies_def Let_def set_column_first [OF len] set_column_map
          scored_row_def o_def del: np_div.simps np_sub.simps np_abs.simps)
qed


lemma scored_row_lookup:
  "map_of (scored_row mean std t r x) ''z_score''
     = Some (Num (if std = Finite 0 then Finite 0 else np_abs (np_div (np_sub x mean) std)))"
  "map_of (scored_row mean std t r x) ''is_anomaly''
     = Some (Flag (std \<noteq> Finite 0 \<and> np_greater (np_abs (np_div (np_sub x mean) std)) (Finite t)))"
  "map_of (scored_row mean std t r x) ''expected_value'' = Some (Num mean)"
  "map_of (scored_row mean std t r x) ''detection_method'' = Some (Str ''z-score'')"
  "c \<notin> {''z_score'', ''is_anomaly'', ''expected_value'', ''detection_method''} \<Longrightarrow>
     map_of (scored_row mean std t r x) c = map_of r c"
  by (simp_all add: scored_row_def update_conv' del: np_div.simps np_sub.simps np_abs.simps)

lemma length_filter_zip_snd:
  "length xs = length df \<Longrightarrow> length (filter (\<lambda>p. P (snd p)) (zip df xs)) = length (filter P xs)"
proof -
  assume len: "length xs = length df"
  have "length (filter P (map snd (zip df xs))) = length (filter (\<lambda>p. P (snd p)) (zip df xs))"
    by (simp add: length_filter_map o_def)
  then show ?thesis using len by simp
qed

lemma anomaly_count_scored:
  assumes "length xs = length df"
  shows "anomaly_count (map (\<lambda>p. scored_row mean std t (fst p) (snd p)) (zip df xs))
           = length (filter (flagged mean std t) xs)"
proof -
  have "anomaly_count (map (\<lambda>p. scored_row mean std t (fst p) (snd p)) (zip df xs))
          = length (filter (\<lambda>p. flagged mean std t (snd p)) (zip df xs))"
    unfolding anomaly_count_def length_filter_map
    by (simp add: o_def scored_row_lookup flagged_def del: np_div.simps np_sub.simps np_abs.simps)
  then show ?thesis using length_filter_zip_snd [OF assms] by simp
qed

lemma anomaly_count_detect:
  assumes "column_values df column = Inr xs"
  shows "\<exists>out. detect_zscore_anomalies series_mean series_std cfg df column (Some t) = Inr out
           \<and> anomaly_count out = length (filter (flagged (series_mean xs) (series_std xs) t) xs)"
  using detect_zscore_anomalies_rows [OF assms] anomaly_count_scored [OF column_values_length [OF assms]]
  by simp

lemma length_filter_mono:
  "(\<And>x. x \<in> set xs \<Longrightarrow> P x \<Longrightarrow> Q x) \<Longrightarrow> length (filter P xs) \<le> length (filter Q xs)"
  by (induction xs) auto

lemma np_greater_mono: "t1 \<le> t2 \<Longrightarrow> np_greater z (Finite t2) \<Longrightarrow> np_greater z (Finite t1)"
  by (cases z) (auto simp add: np_greater_def)

lemma flagged_mono: "t1 \<le> t2 \<Longrightarrow> flagged mean std t2 x \<Longrightarrow> flagged mean std t1 x"
  unfolding flagged_def using np_greater_mono by blast

lemma np_div_NaN [simp]: "np_div x NaN = NaN"
  by (cases x) simp_all

lemma np_greater_NaN [simp]: "\<not> np_greater NaN y"
  by (cases y) (simp_all add: np_greater_def)

lemma flagged_degenerate:
  "std = Finite 0 \<or> std = NaN \<Longrightarrow> \<not> flagged mean std t x"
  by (auto simp add: flagged_def)

lemma foldl_np_add_Finite:
  "foldl np_add (Finite a) (map Finite vs) = Finite (a + sum_list vs)"
  by (induction vs arbitrary: a) (simp_all add: add.assoc)

lemma np_sum_Finite: "np_sum (map Finite vs) = Finite (sum_list vs)"
  by (simp add: np_sum_def foldl_np_add_Finite)

lemma filter_valid_Finite: "filter (\<lambda>x. x \<noteq> NaN) (map Finite vs) = map Finite vs"
  by (induction vs) simp_all

lemma exact_mean_Finite:
  "vs \<noteq> [] \<Longrightarrow> exact_mean (map Finite vs) = Finite (sum_list vs / real (length vs))"
  by (simp add: exact_mean_def filter_valid_Finite np_sum_Finite)

lemma exact_std_Finite:
  assumes "2 \<le> length vs"
  shows "exact_std (map Finite vs)
     = Finite (sqrt (sum_list (map (\<lambda>v. (v - sum_list vs / real (length vs))\<^sup>2) vs)
                       / real (length vs - 1)))"
proof -
  let ?m = "sum_list vs / real (length vs)"
  have n: "\<not> length vs < 2" "length vs \<noteq> 0" "real (length vs - 1) \<noteq> 0" using assms by auto
  have sq: "map (\<lambda>x. np_mul (np_sub x (Finite ?m)) (np_sub x (Finite ?m))) (map Finite vs)
              = map Finite (map (\<lambda>v. (v - ?m)\<^sup>2) vs)"
    by (simp add: power2_eq_square)
  have nonneg: "0 \<le> sum_list (map (\<lambda>v. (v - ?m)\<^sup>2) vs)"
    by (rule sum_list_nonneg) auto
  then have nonneg': "\<not> sum_list (map (\<lambda>v. (v - ?m)\<^sup>2) vs) / real (length vs - 1) < 0"
    by (simp add: not_less)
  show ?thesis
    unfolding exact_std_def Let_def filter_valid_Finite
    using n nonneg'
    by (simp add: np_sum_Finite sq del: map_map)
qed


lemma foldl_np_add_NaN: "foldl np_add NaN xs = NaN"
  by (induction xs) simp_all

lemma np_sum_replicate_NaN: "0 < n \<Longrightarrow> np_sum (replicate n NaN) = NaN"
  by (cases n) (simp_all add: np_sum_def foldl_np_add_NaN)

lemma foldl_np_add_PosInf: "foldl np_add PosInf (replicate n PosInf) = PosInf"
  by (induction n) simp_all

lemma np_sum_replicate_PosInf: "0 < n \<Longrightarrow> np_sum (replicate n PosInf) = PosInf"
  by (cases n) (simp_all add: np_sum_def foldl_np_add_PosInf)

lemma foldl_np_add_NegInf: "foldl np_add NegInf (replicate n NegInf) = NegInf"
  by (induction n) simp_all

lemma np_sum_replicate_NegInf: "0 < n \<Longrightarrow> np_sum (replicate n NegInf) = NegInf"
  by (cases n) (simp_all add: np_sum_def foldl_np_add_NegInf)

lemma exact_std_constant_Finite:
  "exact_std (replicate n (Finite v)) = (if n < 2 then NaN else Finite 0)"
proof (cases "n < 2")
  case True
  then show ?thesis by (simp add: exact_std_def)
next
  case False
  then have n: "2 \<le> length (replicate n v)" by simp
  have r: "replicate n (Finite v) = map Finite (replicate n v)" by simp
  have s: "sum_list (replicate n v) / real n = v" using False by (simp add: sum_list_replicate)
  show ?thesis
    unfolding r exact_std_Finite [OF n]
    using False by (simp add: s sum_list_replicate o_def)
qed

lemma exact_std_constant_PosInf: "exact_std (replicate n PosInf) = NaN"
proof (cases "n < 2")
  case True
  then show ?thesis by (simp add: exact_std_def)
next
  case False
  then have pos: "0 < n" by simp
  show ?thesis
    using False
    by (simp add: exact_std_def Let_def np_sum_replicate_PosInf [OF pos] inf_of_sign_def
          np_sum_replicate_NaN [OF pos])
qed

lemma exact_std_constant_NegInf: "exact_std (replicate n NegInf) = NaN"
proof (cases "n < 2")
  case True
  then show ?thesis by (simp add: exact_std_def)
next
  case False
  then have pos: "0 < n" by simp
  show ?thesis
    using False
    by (simp add: exact_std_def Let_def np_sum_replicate_NegInf [OF pos] inf_of_sign_def
          np_sum_replicate_NaN [OF pos])
qed

lemma exact_std_constant:
  "exact_std (replicate n c) = Finite 0 \<or> exact_std (replicate n c) = NaN"
proof (cases c)
  case (Finite v)
  then show ?thesis by (simp add: exact_std_constant_Finite)
next
  case PosInf
  then show ?thesis by (simp add: exact_std_constant_PosInf)
next
  case NegInf
  then show ?thesis by (simp add: exact_std_constant_NegInf)
next
  case NaN
  then show ?thesis by (simp add: exact_std_def)
qed

lemma constant_series_replicate:
  "list_all (\<lambda>x. x = c) xs \<Longrightarrow> xs = replicate (length xs) c"
  by (induction xs) simp_all

text \<open>In exact arithmetic the deviation of a constant series is 0, or NaN when it is undefined.\<close>

lemma exact_std_constant_series:
  assumes "list_all (\<lambda>x. x = c) xs"
  shows "exact_std xs = Finite 0 \<or> exact_std xs = NaN"
  using constant_series_replicate [OF assms] exact_std_constant [of "length xs" c] by simp

lemma degenerate_not_flagged:
  assumes "std = Finite 0 \<or> std = NaN"
  shows "filter (flagged mean std t) xs = []"
  using flagged_degenerate [OF assms] by (simp add: filter_empty_conv)

text \<open>
  C2 (amended). For every frame whose analysed column is numeric, with \<open>\<mu>\<close> the mean and
  \<open>\<sigma>\<close> the sample standard deviation that pandas computes over the whole column,
  \<open>detect_zscore_anomalies\<close> returns the frame with, on every row, the score
  \<open>|value - \<mu>| / \<sigma>\<close> (0 when \<open>\<sigma> = 0\<close>), \<open>expected_value = \<mu>\<close>, and the flag set
  exactly when \<open>\<sigma>\<close> is not 0 and the score exceeds the threshold. Consequently, for a
  series with \<open>\<sigma> = 0\<close> the anomaly count is 0 for every threshold (and so it is when
  \<open>\<sigma>\<close> is NaN). Without a threshold the configured one is used.
\<close>

theorem zscore_detection:
  assumes "column_values df column = Inr xs"
  shows "(case detect_zscore_anomalies series_mean series_std cfg df column (Some t) of
            Inl e \<Rightarrow> False
          | Inr out \<Rightarrow>
              length out = length df
            \<and> (\<forall>i<length df.
                  map_of (out ! i) ''z_score''
                    = Some (Num (if series_std xs = Finite 0 then Finite 0
                                 else np_abs (np_div (np_sub (xs ! i) (series_mean xs)) (series_std xs))))
                \<and> map_of (out ! i) ''is_anomaly''
                    = Some (Flag (series_std xs \<noteq> Finite 0
                          \<and> np_greater (np_abs (np_div (np_sub (xs ! i) (series_mean xs)) (series_std xs)))
                               (Finite t)))
                \<and> map_of (out ! i) ''expected_value'' = Some (Num (series_mean xs))
                \<and> map_of (out ! i) ''detection_method'' = Some (Str ''z-score''))
            \<and> (series_std xs = Finite 0 \<or> series_std xs = NaN \<longrightarrow> anomaly_count out = 0))
       \<and> detect_zscore_anomalies series_mean series_std cfg df column None
            = detect_zscore_anomalies series_mean series_std cfg df column (Some (z_score_threshold cfg))"
proof -
  have len: "length xs = length df" using assms by (rule column_values_length)
  note rows = detect_zscore_anomalies_rows
                [OF assms, where series_mean = series_mean and series_std = series_std
                             and cfg = cfg and t = t]
  have nth: "\<And>i. i < length df \<Longrightarrow>
      map (\<lambda>p. scored_row (series_mean xs) (series_std xs) t (fst p) (snd p)) (zip df xs) ! i
        = scored_row (series_mean xs) (series_std xs) t (df ! i) (xs ! i)"
    using len by simp
  have degenerate: "series_std xs = Finite 0 \<or> series_std xs = NaN \<Longrightarrow>
      anomaly_count (map (\<lambda>p. scored_row (series_mean xs) (series_std xs) t (fst p) (snd p)) (zip df xs)) = 0"
    using anomaly_count_scored [OF len] degenerate_not_flagged by simp
  have first: "case detect_zscore_anomalies series_mean series_std cfg df column (Some t) of
            Inl e \<Rightarrow> False
          | Inr out \<Rightarrow>
              length out = length df
            \<and> (\<forall>i<length df.
                  map_of (out ! i) ''z_score''
                    = Some (Num (if series_std xs = Finite 0 then Finite 0
                                 else np_abs (np_div (np_sub (xs ! i) (series_mean xs)) (series_std xs))))
                \<and> map_of (out ! i) ''is_anomaly''
                    = Some (Flag (series_std xs \<noteq> Finite 0
                          \<and> np_greater (np_abs (np_div (np_sub (xs ! i) (series_mean xs)) (series_std xs)))
                               (Finite t)))
                \<and> map_of (out ! i) ''expected_value'' = Some (Num (series_mean xs))
                \<and> map_of (out ! i) ''detection_method'' = Some (Str ''z-score''))
            \<and> (series_std xs = Finite 0 \<or> series_std xs = NaN \<longrightarrow> anomaly_count out = 0)"
    unfolding rows sum.case
    using len degenerate by (simp add: nth scored_row_lookup del: np_div.simps np_sub.simps np_abs.simps)
  have dflt: "detect_zscore_anomalies series_mean series_std cfg df column None
            = detect_zscore_anomalies series_mean series_std cfg df column (Some (z_score_threshold cfg))"
    by (simp add: detect_zscore_anomalies_def)
  show ?thesis
    using first dflt by blast
qed

text \<open>
  The theorem on the series 0, 0, 0, 4 (mean 1, deviation 2, threshold 1) and on the
  constant series 5, 5, 5 (deviation 0, threshold -1). On both, every intermediate value is
  a small integer, so the floating-point mean and deviation are the exact ones.
\<close>

theorem zscore_detection_witness:
  "(case detect_zscore_anomalies exact_mean exact_std ANOMALY_CONFIG
           [[(''date'', Str ''2024-01-31''), (''revenue'', Num (Finite 0))],
            [(''date'', Str ''2024-02-29''), (''revenue'', Num (Finite 0))],
            [(''date'', Str ''2024-03-31''), (''revenue'', Num (Finite 0))],
            [(''date'', Str ''2024-04-30''), (''revenue'', Num (Finite 4))]] ''revenue'' (Some 1) of
      Inl e \<Rightarrow> False
    | Inr out \<Rightarrow>
        length out = 4
      \<and> map_of (out ! 3) ''z_score'' = Some (Num (Finite (3 / 2)))
      \<and> map_of (out ! 3) ''is_anomaly'' = Some (Flag True)
      \<and> map_of (out ! 0) ''z_score'' = Some (Num (Finite (1 / 2)))
      \<and> map_of (out ! 0) ''is_anomaly'' = Some (Flag False)
      \<and> map_of (out ! 3) ''expected_value'' = Some (Num (Finite 1)))
 \<and> (case detect_zscore_anomalies exact_mean exact_std ANOMALY_CONFIG
           [[(''date'', Str ''2024-01-31''), (''revenue'', Num (Finite 5))],
            [(''date'', Str ''2024-02-29''), (''revenue'', Num (Finite 5))],
            [(''date'', Str ''2024-03-31''), (''revenue'', Num (Finite 5))]] ''revenue'' (Some (- 1)) of
      Inl e \<Rightarrow> False
    | Inr out \<Rightarrow> anomaly_count out = 0)
 \<and> exact_mean [Finite 0, Finite 0, Finite 0, Finite 4] = Finite 1
 \<and> exact_std [Finite 0, Finite 0, Finite 0, Finite 4] = Finite 2
 \<and> exact_std [Finite 5, Finite 5, Finite 5] = Finite 0"
proof -
  let ?F = "[[(''date'', Str ''2024-01-31''), (''revenue'', Num (Finite 0))],
            [(''date'', Str ''2024-02-29''), (''revenue'', Num (Finite 0))],
            [(''date'', Str ''2024-03-31''), (''revenue'', Num (Finite 0))],
            [(''date'', Str ''2024-04-30''), (''revenue'', Num (Finite 4))]]"
  let ?G = "[[(''date'', Str ''2024-01-31''), (''revenue'', Num (Finite 5))],
            [(''date'', Str ''2024-02-29''), (''revenue'', Num (Finite 5))],
            [(''date'', Str ''2024-03-31''), (''revenue'', Num (Finite 5))]]"
  have cf: "column_values ?F ''revenue'' = Inr [Finite 0, Finite 0, Finite 0, Finite 4]" by simp
  have cg: "column_values ?G ''revenue'' = Inr [Finite 5, Finite 5, Finite 5]" by simp
  have m: "exact_mean [Finite 0, Finite 0, Finite 0, Finite 4] = Finite 1"
    by (simp add: exact_mean_def np_sum_def)
  have sd: "exact_std [Finite 0, Finite 0, Finite 0, Finite 4] = Finite 2"
    by (simp add: exact_std_def np_sum_def)
  have sd5: "exact_std [Finite 5, Finite 5, Finite 5] = Finite 0"
    by (simp add: exact_std_def np_sum_def)
  note f = zscore_detection [OF cf, where series_mean = exact_mean and series_std = exact_std
                                      and cfg = ANOMALY_CONFIG and t = 1]
  note g = zscore_detection [OF cg, where series_mean = exact_mean and series_std = exact_std
                                      and cfg = ANOMALY_CONFIG and t = "- 1"]
  show ?thesis
    using f g
    by (auto simp add: m sd sd5 np_greater_def split: sum.splits)
qed

text \<open>
  C2 as stated fails for a negative threshold on the constant series 5, 5, 5 (mean 5 and
  deviation 0, in floating point too): the score is 0, which exceeds the threshold -1, yet
  the guard on \<^verbatim>\<open>std == 0\<close> flags nothing.
\<close>

theorem zscore_flag_counterexample:
  "case detect_zscore_anomalies exact_mean exact_std ANOMALY_CONFIG
           [[(''date'', Str ''2024-01-31''), (''revenue'', Num (Finite 5))],
            [(''date'', Str ''2024-02-29''), (''revenue'', Num (Finite 5))],
            [(''date'', Str ''2024-03-31''), (''revenue'', Num (Finite 5))]] ''revenue'' (Some (- 1)) of
      Inl e \<Rightarrow> False
    | Inr out \<Rightarrow>
        map_of (out ! 0) ''z_score'' = Some (Num (Finite 0))
      \<and> claimed_is_anomaly (Finite 0) (- 1)
      \<and> map_of (out ! 0) ''is_anomaly'' = Some (Flag False)
      \<and> map_of (out ! 0) ''is_anomaly'' \<noteq> Some (Flag (claimed_is_anomaly (Finite 0) (- 1)))"
  by (simp add: detect_zscore_anomalies_def exact_mean_def exact_std_def np_sum_def
        Let_def set_column_def np_greater_def claimed_is_anomaly_def)

text \<open>
  C3. For every frame with a numeric column and thresholds \<open>t1 \<le> t2\<close>, both runs of
  \<open>detect_zscore_anomalies\<close> succeed and the number of rows flagged with \<open>t2\<close> is at most
  the number flagged with \<open>t1\<close>.
\<close>

theorem zscore_threshold_monotone:
  assumes "column_values df column = Inr xs" and "t1 \<le> t2"
  shows "case (detect_zscore_anomalies series_mean series_std cfg df column (Some t1),
               detect_zscore_anomalies series_mean series_std cfg df column (Some t2)) of
           (Inr out1, Inr out2) \<Rightarrow> anomaly_count out2 \<le> anomaly_count out1
         | _ \<Rightarrow> False"
proof -
  have len: "length xs = length df" using assms(1) by (rule column_values_length)
  have "length (filter (flagged (series_mean xs) (series_std xs) t2) xs)
          \<le> length (filter (flagged (series_mean xs) (series_std xs) t1) xs)"
    by (rule length_filter_mono) (rule flagged_mono [OF assms(2)])
  then show ?thesis
    unfolding detect_zscore_anomalies_rows [OF assms(1)]
    by (simp add: anomaly_count_scored [OF len])
qed


theorem zscore_threshold_monotone_witness:
  "(1::real) \<le> 2
 \<and> (case (detect_zscore_anomalies exact_mean exact_std ANOMALY_CONFIG
           [[(''date'', Str ''2024-01-31''), (''revenue'', Num (Finite 0))],
            [(''date'', Str ''2024-02-29''), (''revenue'', Num (Finite 0))],
            [(''date'', Str ''2024-03-31''), (''revenue'', Num (Finite 0))],
            [(''date'', Str ''2024-04-30''), (''revenue'', Num (Finite 4))]] ''revenue'' (Some 1),
          detect_zscore_anomalies exact_mean exact_std ANOMALY_CONFIG
           [[(''date'', Str ''2024-01-31''), (''revenue'', Num (Finite 0))],
            [(''date'', Str ''2024-02-29''), (''revenue'', Num (Finite 0))],
            [(''date'', Str ''2024-03-31''), (''revenue'', Num (Finite 0))],
            [(''date'', Str ''2024-04-30''), (''revenue'', Num (Finite 4))]] ''revenue'' (Some 2)) of
      (Inr out1, Inr out2) \<Rightarrow>
         anomaly_count out2 \<le> anomaly_count out1 \<and> anomaly_count out1 = 1 \<and> anomaly_count out2 = 0
    | _ \<Rightarrow> False)"
proof -
  let ?F = "[[(''date'', Str ''2024-01-31''), (''revenue'', Num (Finite 0))],
            [(''date'', Str ''2024-02-29''), (''revenue'', Num (Finite 0))],
            [(''date'', Str ''2024-03-31''), (''revenue'', Num (Finite 0))],
            [(''date'', Str ''2024-04-30''), (''revenue'', Num (Finite 4))]]"
  have cf: "column_values ?F ''revenue'' = Inr [Finite 0, Finite 0, Finite 0, Finite 4]" by simp
  have le: "(1::real) \<le> 2" by simp
  have e1: "detect_zscore_anomalies exact_mean exact_std ANOMALY_CONFIG ?F ''revenue'' (Some 1) =
     Inr [[(''date'', Str ''2024-01-31''), (''revenue'', Num (Finite 0)),
           (''z_score'', Num (Finite (1 / 2))), (''is_anomaly'', Flag False),
           (''expected_value'', Num (Finite 1)), (''detection_method'', Str ''z-score'')],
          [(''date'', Str ''2024-02-29''), (''revenue'', Num (Finite 0)),
           (''z_score'', Num (Finite (1 / 2))), (''is_anomaly'', Flag False),
           (''expected_value'', Num (Finite 1)), (''detection_method'', Str ''z-score'')],
          [(''date'', Str ''2024-03-31''), (''revenue'', Num (Finite 0)),
           (''z_score'', Num (Finite (1 / 2))), (''is_anomaly'', Flag False),
           (''expected_value'', Num (Finite 1)), (''detection_method'', Str ''z-score'')],
          [(''date'', Str ''2024-04-30''), (''revenue'', Num (Finite 4)),
           (''z_score'', Num (Finite (3 / 2))), (''is_anomaly'', Flag True),
           (''expected_value'', Num (Finite 1)), (''detection_method'', Str ''z-score'')]]"
    by (simp add: detect_zscore_anomalies_def exact_mean_def exact_std_def np_sum_def
        Let_def set_column_def np_greater_def)
  have e2: "detect_zscore_anomalies exact_mean exact_std ANOMALY_CONFIG ?F ''revenue'' (Some 2) =
     Inr [[(''date'', Str ''2024-01-31''), (''revenue'', Num (Finite 0)),
           (''z_score'', Num (Finite (1 / 2))), (''is_anomaly'', Flag False),
           (''expected_value'', Num (Finite 1)), (''detection_method'', Str ''z-score'')],
          [(''date'', Str ''2024-02-29''), (''revenue'', Num (Finite 0)),
           (''z_score'', Num (Finite (1 / 2))), (''is_anomaly'', Flag False),
           (''expected_value'', Num (Finite 1)), (''detection_method'', Str ''z-score'')],
          [(''date'', Str ''2024-03-31''), (''revenue'', Num (Finite 0)),
           (''z_score'', Num (Finite (1 / 2))), (''is_anomaly'', Flag False),
           (''expected_value'', Num (Finite 1)), (''detection_method'', Str ''z-score'')],
          [(''date'', Str ''2024-04-30''), (''revenue'', Num (Finite 4)),
           (''z_score'', Num (Finite (3 / 2))), (''is_anomaly'', Flag False),
           (''expected_value'', Num (Finite 1)), (''detection_method'', Str ''z-score'')]]"
    by (simp add: detect_zscore_anomalies_def exact_mean_def exact_std_def np_sum_def
        Let_def set_column_def np_greater_def)
  show ?thesis
    using zscore_threshold_monotone [OF cf le, where series_mean = exact_mean
            and series_std = exact_std and cfg = ANOMALY_CONFIG]
    unfolding e1 e2
    by (simp add: anomaly_count_def)
qed




subsection \<open>C5 and C10: narratives of anomalies\<close>


lemma row_insight_narratable_row:
  assumes "narratable_row strftime metric_col row"
  shows "row_insight strftime metric_name metric_col row
           = Inr (narrative_of strftime metric_name metric_col row)"
proof -
  obtain d where d: "map_of row ''date'' = Some d" and "\<not> isl (strftime d)"
    using assms by (auto simp add: narratable_row_def split: option.splits)
  then obtain dt where date: "strftime d = Inr dt" by (cases "strftime d") auto
  obtain v where v: "map_of row metric_col = Some v" and nv: "numeric_cell v"
    using assms by (auto simp add: narratable_row_def split: option.splits)
  then obtain x where val: "as_number v = Inr x"
    by (cases v) (auto simp add: numeric_cell_def)
  show ?thesis
  proof (cases "map_of row ''expected_value''")
    case None
    then show ?thesis
      by (simp add: row_insight_def narrative_of_def d date v val row_date_def row_number_def)
  next
    case (Some ex)
    then have "numeric_cell ex" using assms by (simp add: narratable_row_def)
    then obtain expected where expected: "as_number ex = Inr expected"
      by (cases ex) (auto simp add: numeric_cell_def)
    show ?thesis
      by (simp add: row_insight_def narrative_of_def d date v val Some expected row_date_def
            row_number_def percent_deviation_def Let_def
            del: np_div.simps np_sub.simps np_abs.simps np_mul.simps)
  qed
qed

lemma row_insight_anomaly_row:
  assumes "anomaly_row strftime metric_col row"
  shows "row_insight strftime metric_name metric_col row
           = Inr (narrative_of strftime metric_name metric_col row)"
proof -
  obtain d where d: "map_of row ''date'' = Some d" and "\<not> isl (strftime d)"
    using assms by (auto simp add: anomaly_row_def split: option.splits)
  then obtain dt where date: "strftime d = Inr dt" by (cases "strftime d") auto
  obtain v where v: "map_of row metric_col = Some v" and nv: "numeric_cell v"
    using assms by (auto simp add: anomaly_row_def split: option.splits)
  then obtain x where val: "as_number v = Inr x"
    by (cases v) (auto simp add: numeric_cell_def)
  show ?thesis
  proof (cases "map_of row ''expected_value''")
    case None
    then show ?thesis
      by (simp add: row_insight_def narrative_of_def d date v val row_date_def row_number_def)
  next
    case (Some ex)
    then have "numeric_cell ex" using assms by (simp add: anomaly_row_def)
    then obtain expected where expected: "as_number ex = Inr expected"
      by (cases ex) (auto simp add: numeric_cell_def)
    show ?thesis
      by (simp add: row_insight_def narrative_of_def d date v val Some expected row_date_def
            row_number_def percent_deviation_def Let_def
            del: np_div.simps np_sub.simps np_abs.simps np_mul.simps)
  qed
qed

lemma row_insights_narratable:
  "list_all (narratable_row strftime metric_col) rs \<Longrightarrow>
   row_insights strftime metric_name metric_col rs
     = Inr (map (narrative_of strftime metric_name metric_col) rs)"
  by (induction rs) (simp_all add: row_insight_narratable_row)

lemma row_insights_anomaly_frame:
  "list_all (anomaly_row strftime metric_col) rs \<Longrightarrow>
   row_insights strftime metric_name metric_col rs
     = Inr (map (narrative_of strftime metric_name metric_col) rs)"
  by (induction rs) (simp_all add: row_insight_anomaly_row)

lemma generate_anomaly_insights_narratable:
  assumes "anomalies \<noteq> [] \<longrightarrow> map_of (hd anomalies) ''metric_name'' = Some (Str metric_col)"
      and "list_all (narratable_row strftime metric_col) (take 3 anomalies)"
  shows "generate_anomaly_insights strftime anomalies metric_name
           = Inr (map (narrative_of strftime metric_name metric_col) (take 3 anomalies))"
proof (cases "anomalies = []")
  case True
  then show ?thesis by (simp add: generate_anomaly_insights_def)
next
  case False
  then have m: "map_of (hd anomalies) ''metric_name'' = Some (Str metric_col)"
    using assms(1) by simp
  have ri: "row_insights strftime metric_name metric_col (take 3 anomalies)
      = Inr (map (narrative_of strftime metric_name metric_col) (take 3 anomalies))"
    using assms(2) by (rule row_insights_narratable)
  show ?thesis
    unfolding generate_anomaly_insights_def using False m ri by simp
qed

lemma generate_anomaly_insights_closed:
  assumes "anomaly_frame strftime metric_col anomalies"
  shows "generate_anomaly_insights strftime anomalies metric_name
           = Inr (map (narrative_of strftime metric_name metric_col) (take 3 anomalies))"
proof (cases "anomalies = []")
  case True
  then show ?thesis by (simp add: generate_anomaly_insights_def)
next
  case False
  then have m: "map_of (hd anomalies) ''metric_name'' = Some (Str metric_col)"
    using assms by (cases anomalies) (simp_all add: anomaly_frame_def anomaly_row_def)
  have "list_all (anomaly_row strftime metric_col) (take 3 anomalies)"
    using assms by (auto simp add: anomaly_frame_def list_all_iff dest: in_set_takeD)
  then have ri: "row_insights strftime metric_name metric_col (take 3 anomalies)
      = Inr (map (narrative_of strftime metric_name metric_col) (take 3 anomalies))"
    by (rule row_insights_anomaly_frame)
  show ?thesis
    unfolding generate_anomaly_insights_def using False m ri by simp
qed

lemma narrative_of_zero_expected:
  assumes "map_of row ''expected_value'' \<noteq> None"
      and "row_number row ''expected_value'' = Finite 0"
  shows "narrative_of strftime metric_name metric_col row
     = DeviationText metric_name (row_date strftime row) (Finite 0)
         (if np_greater (row_number row metric_col) (Finite 0) then ''higher'' else ''lower'')
         (row_number row metric_col) (Finite 0)"
  using assms by (simp add: narrative_of_def percent_deviation_def)

lemma query_metric_sorted:
  "query_metric db table_name dc mc = Inr df \<Longrightarrow> sorted (map (date_key dc) df)"
  by (auto simp add: query_metric_def split: option.splits)

lemma query_metric_row:
  assumes "query_metric db table_name dc mc = Inr df" and "r \<in> set df"
  shows "\<exists>a b. r = [(dc, a), (mc, b)]"
  using assms by (auto simp add: query_metric_def split: option.splits)

lemma as_number_numeric: "as_number c = Inr x \<Longrightarrow> numeric_cell c"
  by (cases c) (simp_all add: numeric_cell_def)

lemma column_values_Cons:
  assumes "column_values (a # df) col = Inr xs"
  shows "\<exists>c x xs'. map_of a col = Some c \<and> as_number c = Inr x \<and> column_values df col = Inr xs'"
proof (cases "map_of a col")
  case None
  then show ?thesis using assms by simp
next
  case (Some c)
  show ?thesis
  proof (cases "as_number c")
    case (Inl e)
    then show ?thesis using assms Some by simp
  next
    case (Inr x)
    then show ?thesis using assms Some by (cases "column_values df col") simp_all
  qed
qed

lemma column_values_numeric:
  "column_values df col = Inr xs \<Longrightarrow> r \<in> set df \<Longrightarrow> \<exists>c. map_of r col = Some c \<and> numeric_cell c"
proof (induction df arbitrary: xs)
  case Nil
  then show ?case by simp
next
  case (Cons a df)
  obtain c x xs' where c: "map_of a col = Some c" "as_number c = Inr x"
      "column_values df col = Inr xs'"
    using column_values_Cons [OF Cons.prems(1)] by blast
  show ?case
  proof (cases "r = a")
    case True
    then show ?thesis using c as_number_numeric by blast
  next
    case False
    then have "r \<in> set df" using Cons.prems(2) by simp
    then show ?thesis using Cons.IH [OF c(3)] by blast
  qed
qed

lemma attributed_lookup:
  "map_of (attributed tn mc r) ''metric_name'' = Some (Str mc)"
  "map_of (attributed tn mc r) ''table_name'' = Some (Str tn)"
  "c \<notin> {''metric_name'', ''table_name''} \<Longrightarrow> map_of (attributed tn mc r) c = map_of r c"
  by (simp_all add: attributed_def update_conv')

lemma detect_metric_anomalies_zscore:
  assumes "detect_metric_anomalies series_mean series_std forest cfg db tn mc dc ''z-score'' = Inr anomalies"
  shows "\<exists>df xs. query_metric db tn dc mc = Inr df \<and> (df = [] \<or> column_values df mc = Inr xs)
           \<and> anomalies = map (\<lambda>p. attributed tn mc
                 (scored_row (series_mean xs) (series_std xs) (z_score_threshold cfg) (fst p) (snd p)))
               (filter (\<lambda>p. flagged (series_mean xs) (series_std xs) (z_score_threshold cfg) (snd p)) (zip df xs))"
proof -
  obtain df where q: "query_metric db tn dc mc = Inr df"
    using assms by (auto simp add: detect_metric_anomalies_def split: sum.splits)
  show ?thesis
  proof (cases "df = []")
    case True
    then have "anomalies = []" using assms q by (simp add: detect_metric_anomalies_def)
    then show ?thesis using q True by simp
  next
    case False
    then obtain result_df where d: "detect_zscore_anomalies series_mean series_std cfg df mc None = Inr result_df"
      and a: "anomalies = map (attributed tn mc)
                 (filter (\<lambda>r. map_of r ''is_anomaly'' = Some (Flag True)) result_df)"
      using assms q
      by (auto simp add: detect_metric_anomalies_def attributed_def split: sum.splits)
    obtain xs where xs: "column_values df mc = Inr xs"
      using d by (auto simp add: detect_zscore_anomalies_def split: sum.splits)
    have "detect_zscore_anomalies series_mean series_std cfg df mc None
            = detect_zscore_anomalies series_mean series_std cfg df mc (Some (z_score_threshold cfg))"
      by (simp add: detect_zscore_anomalies_def)
    then have r: "result_df = map (\<lambda>p. scored_row (series_mean xs) (series_std xs) (z_score_threshold cfg)
                                         (fst p) (snd p)) (zip df xs)"
      using d detect_zscore_anomalies_rows [OF xs, where series_mean = series_mean
              and series_std = series_std and cfg = cfg and t = "z_score_threshold cfg"] by simp
    have "anomalies = map (\<lambda>p. attributed tn mc
                 (scored_row (series_mean xs) (series_std xs) (z_score_threshold cfg) (fst p) (snd p)))
               (filter (\<lambda>p. flagged (series_mean xs) (series_std xs) (z_score_threshold cfg) (snd p)) (zip df xs))"
      unfolding a r filter_map
      by (simp add: o_def scored_row_lookup flagged_def
            del: np_div.simps np_sub.simps np_abs.simps)
    then show ?thesis using q xs by blast
  qed
qed

lemma date_key_attributed_scored:
  assumes "dc \<notin> set engine_columns"
  shows "date_key dc (attributed tn mc (scored_row mean std t r x)) = date_key dc r"
  using assms
  by (simp add: date_key_def attributed_lookup scored_row_lookup engine_columns_def)

lemma sorted_map_filter: "sorted (map f xs) \<Longrightarrow> sorted (map f (filter P xs))"
  by (induction xs) auto

lemma detect_metric_anomalies_ascending:
  assumes "detect_metric_anomalies series_mean series_std forest cfg db tn mc dc ''z-score'' = Inr anomalies"
      and "dc \<notin> set engine_columns"
  shows "sorted (map (date_key dc) anomalies)"
proof -
  obtain df xs where q: "query_metric db tn dc mc = Inr df"
    and c: "df = [] \<or> column_values df mc = Inr xs"
    and a: "anomalies = map (\<lambda>p. attributed tn mc
                 (scored_row (series_mean xs) (series_std xs) (z_score_threshold cfg) (fst p) (snd p)))
               (filter (\<lambda>p. flagged (series_mean xs) (series_std xs) (z_score_threshold cfg) (snd p)) (zip df xs))"
    using detect_metric_anomalies_zscore [OF assms(1)] by blast
  show ?thesis
  proof (cases "df = []")
    case True
    then show ?thesis using a by simp
  next
    case False
    then have len: "length xs = length df" using c column_values_length by blast
    have s: "sorted (map (\<lambda>p. date_key dc (fst p)) (zip df xs))"
    proof -
      have "map (\<lambda>p. date_key dc (fst p)) (zip df xs) = map (date_key dc) (map fst (zip df xs))"
        by (simp add: o_def)
      then show ?thesis using query_metric_sorted [OF q] len by simp
    qed
    have "map (date_key dc) anomalies
        = map (\<lambda>p. date_key dc (fst p))
            (filter (\<lambda>p. flagged (series_mean xs) (series_std xs) (z_score_threshold cfg) (snd p)) (zip df xs))"
      unfolding a by (simp add: o_def date_key_attributed_scored [OF assms(2)])
    then show ?thesis using sorted_map_filter [OF s] by simp
  qed
qed

lemma detect_metric_anomalies_frame:
  assumes "detect_metric_anomalies series_mean series_std forest cfg db tn mc ''date'' ''z-score'' = Inr anomalies"
      and "mc \<notin> set engine_columns" and "mc \<noteq> ''date''"
      and "list_all (\<lambda>row. case map_of row ''date'' of Some d \<Rightarrow> \<not> isl (strftime d) | None \<Rightarrow> True)
             anomalies"
  shows "anomaly_frame strftime mc anomalies"
proof -
  obtain df xs where q: "query_metric db tn ''date'' mc = Inr df"
    and c: "df = [] \<or> column_values df mc = Inr xs"
    and a: "anomalies = map (\<lambda>p. attributed tn mc
                 (scored_row (series_mean xs) (series_std xs) (z_score_threshold cfg) (fst p) (snd p)))
               (filter (\<lambda>p. flagged (series_mean xs) (series_std xs) (z_score_threshold cfg) (snd p)) (zip df xs))"
    using detect_metric_anomalies_zscore [OF assms(1)] by blast
  have "anomaly_row strftime mc row" if row: "row \<in> set anomalies" for row
  proof -
    obtain r x where p: "(r, x) \<in> set (zip df xs)"
      and row_eq: "row = attributed tn mc
                 (scored_row (series_mean xs) (series_std xs) (z_score_threshold cfg) r x)"
      using row a by auto
    then have r: "r \<in> set df" by (auto dest: set_zip_leftD)
    then have "df \<noteq> []" by auto
    then have cv: "column_values df mc = Inr xs" using c by simp
    obtain d b where shape: "r = [(''date'', d), (mc, b)]"
      using query_metric_row [OF q r] by blast
    obtain v where v: "map_of r mc = Some v" "numeric_cell v"
      using column_values_numeric [OF cv r] by blast
    have date: "map_of row ''date'' = Some d"
      using assms(3) by (simp add: row_eq attributed_lookup scored_row_lookup shape)
    have printable: "\<not> isl (strftime d)"
      using assms(4) row date by (auto simp add: list_all_iff)
    have mc_not: "mc \<notin> {''metric_name'', ''table_name''}"
        "mc \<notin> {''z_score'', ''is_anomaly'', ''expected_value'', ''detection_method''}"
      using assms(2) by (auto simp add: engine_columns_def)
    have metric: "map_of row mc = Some v"
      using v(1) mc_not by (simp add: row_eq attributed_lookup scored_row_lookup)
    have expected: "map_of row ''expected_value'' = Some (Num (series_mean xs))"
      by (simp add: row_eq attributed_lookup scored_row_lookup)
    have name: "map_of row ''metric_name'' = Some (Str mc)"
      by (simp add: row_eq attributed_lookup)
    show ?thesis
      using date printable metric v(2) expected name
      by (simp add: anomaly_row_def numeric_cell_def)
  qed
  then show ?thesis by (simp add: anomaly_frame_def list_all_iff)
qed

text \<open>
  C5 (amended). For every anomaly frame, \<open>generate_anomaly_insights\<close> returns one
  narrative for each of the first 3 rows of the frame, in the frame's order (not the rows
  with the most recent dates): the text that the value was X% higher or lower than
  expected when the frame has an expected value, the generic "unusual value" text when
  it has none. At most 3 narratives are returned, and an empty frame yields the empty list.
  The frames that \<open>detect_metric_anomalies\<close> builds with the z-score method are in
  ascending date order, so on them the first three rows are the three earliest anomalies.
\<close>

theorem anomaly_insights_first_three:
  assumes "anomaly_frame strftime metric_col anomalies"
  shows "(case generate_anomaly_insights strftime anomalies metric_name of
            Inl e \<Rightarrow> False
          | Inr insights \<Rightarrow>
              length insights = min 3 (length anomalies)
            \<and> length insights \<le> 3
            \<and> (\<forall>i<length insights.
                  (let row = anomalies ! i;
                       d = row_date strftime row;
                       v = row_number row metric_col;
                       ex = row_number row ''expected_value''
                   in insights ! i =
                      (if map_of row ''expected_value'' = None then UnusualText metric_name d v
                       else DeviationText metric_name d
                              (np_abs (if ex \<noteq> Finite 0
                                       then np_mul (np_div (np_sub v ex) ex) (Finite 100)
                                       else Finite 0))
                              (if np_greater v ex then ''higher'' else ''lower'') v ex))))
       \<and> generate_anomaly_insights strftime [] metric_name = Inr []
       \<and> (detect_metric_anomalies series_mean series_std forest cfg db table_name metric_column date_column ''z-score''
             = Inr found \<and> date_column \<notin> set engine_columns
           \<longrightarrow> sorted (map (date_key date_column) found))"
proof -
  note closed = generate_anomaly_insights_closed [OF assms, of metric_name]
  have first_three: "(case generate_anomaly_insights strftime anomalies metric_name of
            Inl e \<Rightarrow> False
          | Inr insights \<Rightarrow>
              length insights = min 3 (length anomalies)
            \<and> length insights \<le> 3
            \<and> (\<forall>i<length insights.
                  (let row = anomalies ! i;
                       d = row_date strftime row;
                       v = row_number row metric_col;
                       ex = row_number row ''expected_value''
                   in insights ! i =
                      (if map_of row ''expected_value'' = None then UnusualText metric_name d v
                       else DeviationText metric_name d
                              (np_abs (if ex \<noteq> Finite 0
                                       then np_mul (np_div (np_sub v ex) ex) (Finite 100)
                                       else Finite 0))
                              (if np_greater v ex then ''higher'' else ''lower'') v ex))))"
    unfolding closed sum.case
    by (simp add: narrative_of_def percent_deviation_def Let_def
          del: np_div.simps np_sub.simps np_abs.simps np_mul.simps)
  have empty: "generate_anomaly_insights strftime [] metric_name = Inr []"
    by (simp add: generate_anomaly_insights_def)
  have ascending:
    "detect_metric_anomalies series_mean series_std forest cfg db table_name metric_column date_column ''z-score''
       = Inr found \<and> date_column \<notin> set engine_columns
     \<longrightarrow> sorted (map (date_key date_column) found)"
    using detect_metric_anomalies_ascending by blast
  show ?thesis
    by (intro conjI) (rule first_three, rule empty, rule ascending)
qed

theorem anomaly_insights_first_three_witness:
  "generate_anomaly_insights iso_strftime
    [[(''date'', Str ''2024-01-31 00:00:00''), (''revenue'', Num (Finite 150)),
      (''z_score'', Num (Finite (7 / 2))), (''is_anomaly'', Flag True),
      (''expected_value'', Num (Finite 100)), (''detection_method'', Str ''z-score''),
      (''metric_name'', Str ''revenue''), (''table_name'', Str ''finance'')],
     [(''date'', Str ''2024-02-29 00:00:00''), (''revenue'', Num (Finite 160)),
      (''z_score'', Num (Finite 4)), (''is_anomaly'', Flag True),
      (''expected_value'', Num (Finite 100)), (''detection_method'', Str ''z-score''),
      (''metric_name'', Str ''revenue''), (''table_name'', Str ''finance'')],
     [(''date'', Str ''2024-03-31 00:00:00''), (''revenue'', Num (Finite 40)),
      (''z_score'', Num (Finite (9 / 2))), (''is_anomaly'', Flag True),
      (''expected_value'', Num (Finite 100)), (''detection_method'', Str ''z-score''),
      (''metric_name'', Str ''revenue''), (''table_name'', Str ''finance'')],
     [(''date'', Str ''2024-04-30 00:00:00''), (''revenue'', Num (Finite 170)),
      (''z_score'', Num (Finite 5)), (''is_anomaly'', Flag True),
      (''expected_value'', Num (Finite 100)), (''detection_method'', Str ''z-score''),
      (''metric_name'', Str ''revenue''), (''table_name'', Str ''finance'')]] ''Revenue''
   = Inr [DeviationText ''Revenue'' ''2024-01-31'' (Finite 50) ''higher'' (Finite 150) (Finite 100),
          DeviationText ''Revenue'' ''2024-02-29'' (Finite 60) ''higher'' (Finite 160) (Finite 100),
          DeviationText ''Revenue'' ''2024-03-31'' (Finite 60) ''lower'' (Finite 40) (Finite 100)]
 \<and> generate_anomaly_insights iso_strftime
    [[(''date'', Str ''2024-01-31 00:00:00''), (''revenue'', Num (Finite 5)),
      (''is_anomaly'', Flag True), (''anomaly_score'', Num (Finite (7 / 10))),
      (''detection_method'', Str ''isolation_forest''),
      (''metric_name'', Str ''revenue''), (''table_name'', Str ''finance'')],
     [(''date'', Str ''2024-02-29 00:00:00''), (''revenue'', Num (Finite 160)),
      (''is_anomaly'', Flag True), (''anomaly_score'', Num (Finite (6 / 10))),
      (''detection_method'', Str ''isolation_forest''),
      (''metric_name'', Str ''revenue''), (''table_name'', Str ''finance'')]] ''Revenue''
   = Inr [UnusualText ''Revenue'' ''2024-01-31'' (Finite 5),
          UnusualText ''Revenue'' ''2024-02-29'' (Finite 160)]"
proof -
  let ?F = "[[(''date'', Str ''2024-01-31 00:00:00''), (''revenue'', Num (Finite 150)),
      (''z_score'', Num (Finite (7 / 2))), (''is_anomaly'', Flag True),
      (''expected_value'', Num (Finite 100)), (''detection_method'', Str ''z-score''),
      (''metric_name'', Str ''revenue''), (''table_name'', Str ''finance'')],
     [(''date'', Str ''2024-02-29 00:00:00''), (''revenue'', Num (Finite 160)),
      (''z_score'', Num (Finite 4)), (''is_anomaly'', Flag True),
      (''expected_value'', Num (Finite 100)), (''detection_method'', Str ''z-score''),
      (''metric_name'', Str ''revenue''), (''table_name'', Str ''finance'')],
     [(''date'', Str ''2024-03-31 00:00:00''), (''revenue'', Num (Finite 40)),
      (''z_score'', Num (Finite (9 / 2))), (''is_anomaly'', Flag True),
      (''expected_value'', Num (Finite 100)), (''detection_method'', Str ''z-score''),
      (''metric_name'', Str ''revenue''), (''table_name'', Str ''finance'')],
     [(''date'', Str ''2024-04-30 00:00:00''), (''revenue'', Num (Finite 170)),
      (''z_score'', Num (Finite 5)), (''is_anomaly'', Flag True),
      (''expected_value'', Num (Finite 100)), (''detection_method'', Str ''z-score''),
      (''metric_name'', Str ''revenue''), (''table_name'', Str ''finance'')]]"
  let ?Z = "[[(''date'', Str ''2024-01-31 00:00:00''), (''revenue'', Num (Finite 5)),
      (''is_anomaly'', Flag True), (''anomaly_score'', Num (Finite (7 / 10))),
      (''detection_method'', Str ''isolation_forest''),
      (''metric_name'', Str ''revenue''), (''table_name'', Str ''finance'')],
     [(''date'', Str ''2024-02-29 00:00:00''), (''revenue'', Num (Finite 160)),
      (''is_anomaly'', Flag True), (''anomaly_score'', Num (Finite (6 / 10))),
      (''detection_method'', Str ''isolation_forest''),
      (''metric_name'', Str ''revenue''), (''table_name'', Str ''finance'')]]"
  have wf: "anomaly_frame iso_strftime ''revenue'' ?F"
    by (simp add: anomaly_frame_def anomaly_row_def iso_strftime_def numeric_cell_def)
  have wz: "anomaly_frame iso_strftime ''revenue'' ?Z"
    by (simp add: anomaly_frame_def anomaly_row_def iso_strftime_def numeric_cell_def)
  note f = anomaly_insights_first_three [OF wf, of "''Revenue''"]
  note z = anomaly_insights_first_three [OF wz, of "''Revenue''"]
  have ef: "generate_anomaly_insights iso_strftime ?F ''Revenue''
       = Inr [DeviationText ''Revenue'' ''2024-01-31'' (Finite 50) ''higher'' (Finite 150) (Finite 100),
          DeviationText ''Revenue'' ''2024-02-29'' (Finite 60) ''higher'' (Finite 160) (Finite 100),
          DeviationText ''Revenue'' ''2024-03-31'' (Finite 60) ''lower'' (Finite 40) (Finite 100)]"
    by (simp add: generate_anomaly_insights_def row_insight_def iso_strftime_def np_greater_def)
  have ez: "generate_anomaly_insights iso_strftime ?Z ''Revenue''
       = Inr [UnusualText ''Revenue'' ''2024-01-31'' (Finite 5),
          UnusualText ''Revenue'' ''2024-02-29'' (Finite 160)]"
    by (simp add: generate_anomaly_insights_def row_insight_def iso_strftime_def np_greater_def)
  show ?thesis
    using f z unfolding ef ez sum.case by simp
qed

text \<open>
  C5 as stated fails on a frame of four anomalies in ascending date order, the order in which
  \<^verbatim>\<open>detect_metric_anomalies\<close> reads them (\<^verbatim>\<open>ORDER BY date\<close>): the narratives are those
  of January, February and March, while the three most recent anomalies are those of April,
  March and February.
\<close>

theorem anomaly_insights_recency_counterexample:
  "generate_anomaly_insights iso_strftime
    [[(''date'', Str ''2024-01-31 00:00:00''), (''revenue'', Num (Finite 150)),
      (''z_score'', Num (Finite (7 / 2))), (''is_anomaly'', Flag True),
      (''expected_value'', Num (Finite 100)), (''detection_method'', Str ''z-score''),
      (''metric_name'', Str ''revenue''), (''table_name'', Str ''finance'')],
     [(''date'', Str ''2024-02-29 00:00:00''), (''revenue'', Num (Finite 160)),
      (''z_score'', Num (Finite 4)), (''is_anomaly'', Flag True),
      (''expected_value'', Num (Finite 100)), (''detection_method'', Str ''z-score''),
      (''metric_name'', Str ''revenue''), (''table_name'', Str ''finance'')],
     [(''date'', Str ''2024-03-31 00:00:00''), (''revenue'', Num (Finite 40)),
      (''z_score'', Num (Finite (9 / 2))), (''is_anomaly'', Flag True),
      (''expected_value'', Num (Finite 100)), (''detection_method'', Str ''z-score''),
      (''metric_name'', Str ''revenue''), (''table_name'', Str ''finance'')],
     [(''date'', Str ''2024-04-30 00:00:00''), (''revenue'', Num (Finite 170)),
      (''z_score'', Num (Finite 5)), (''is_anomaly'', Flag True),
      (''expected_value'', Num (Finite 100)), (''detection_method'', Str ''z-score''),
      (''metric_name'', Str ''revenue''), (''table_name'', Str ''finance'')]] ''Revenue''
   = Inr [DeviationText ''Revenue'' ''2024-01-31'' (Finite 50) ''higher'' (Finite 150) (Finite 100),
          DeviationText ''Revenue'' ''2024-02-29'' (Finite 60) ''higher'' (Finite 160) (Finite 100),
          DeviationText ''Revenue'' ''2024-03-31'' (Finite 60) ''lower'' (Finite 40) (Finite 100)]
 \<and> map (\<lambda>row. map_of row ''date'') (most_recent_three
    [[(''date'', Str ''2024-01-31 00:00:00''), (''revenue'', Num (Finite 150)),
      (''z_score'', Num (Finite (7 / 2))), (''is_anomaly'', Flag True),
      (''expected_value'', Num (Finite 100)), (''detection_method'', Str ''z-score''),
      (''metric_name'', Str ''revenue''), (''table_name'', Str ''finance'')],
     [(''date'', Str ''2024-02-29 00:00:00''), (''revenue'', Num (Finite 160)),
      (''z_score'', Num (Finite 4)), (''is_anomaly'', Flag True),
      (''expected_value'', Num (Finite 100)), (''detection_method'', Str ''z-score''),
      (''metric_name'', Str ''revenue''), (''table_name'', Str ''finance'')],
     [(''date'', Str ''2024-03-31 00:00:00''), (''revenue'', Num (Finite 40)),
      (''z_score'', Num (Finite (9 / 2))), (''is_anomaly'', Flag True),
      (''expected_value'', Num (Finite 100)), (''detection_method'', Str ''z-score''),
      (''metric_name'', Str ''revenue''), (''table_name'', Str ''finance'')],
     [(''date'', Str ''2024-04-30 00:00:00''), (''revenue'', Num (Finite 170)),
      (''z_score'', Num (Finite 5)), (''is_anomaly'', Flag True),
      (''expected_value'', Num (Finite 100)), (''detection_method'', Str ''z-score''),
      (''metric_name'', Str ''revenue''), (''table_name'', Str ''finance'')]])
   = [Some (Str ''2024-04-30 00:00:00''), Some (Str ''2024-03-31 00:00:00''),
      Some (Str ''2024-02-29 00:00:00'')]"
  by (simp add: generate_anomaly_insights_def row_insight_def iso_strftime_def np_greater_def
        most_recent_three_def)

text \<open>
  C10 (amended). \<open>generate_anomaly_insights\<close> returns on every frame that is empty, or whose
  first row names the metric column and whose first three rows each carry a date that
  prints, a number in the metric column and, if the column is there, a number as expected
  value. It then gives one narrative for each of the first three rows and none for the
  rows after them. The division by the expected value is made only when that value is not
  0: a row among the first three whose expected value is 0 gets the narrative with
  deviation 0.
\<close>

theorem anomaly_insights_zero_expected:
  assumes "anomalies \<noteq> [] \<longrightarrow> map_of (hd anomalies) ''metric_name'' = Some (Str metric_col)"
      and "list_all (narratable_row strftime metric_col) (take 3 anomalies)"
  shows "case generate_anomaly_insights strftime anomalies metric_name of
           Inl e \<Rightarrow> False
         | Inr insights \<Rightarrow>
             length insights = min 3 (length anomalies)
           \<and> (\<forall>i<min 3 (length anomalies).
                 (let row = anomalies ! i;
                      d = row_date strftime row;
                      v = row_number row metric_col;
                      ex = row_number row ''expected_value''
                  in (map_of row ''expected_value'' \<noteq> None \<and> ex = Finite 0 \<longrightarrow>
                        insights ! i =
                          DeviationText metric_name d (Finite 0)
                            (if np_greater v (Finite 0) then ''higher'' else ''lower'') v (Finite 0))
                   \<and> (map_of row ''expected_value'' \<noteq> None \<and> ex \<noteq> Finite 0 \<longrightarrow>
                        insights ! i =
                          DeviationText metric_name d
                            (np_abs (np_mul (np_div (np_sub v ex) ex) (Finite 100)))
                            (if np_greater v ex then ''higher'' else ''lower'') v ex)
                   \<and> (map_of row ''expected_value'' = None \<longrightarrow>
                        insights ! i = UnusualText metric_name d v)))"
proof -
  note closed = generate_anomaly_insights_narratable [OF assms, of metric_name]
  have zero: "np_abs (Finite 0) = Finite 0" by simp
  show ?thesis
    unfolding closed sum.case
    by (simp add: narrative_of_def percent_deviation_def Let_def zero min.commute
          del: np_div.simps np_sub.simps np_abs.simps np_mul.simps)
qed

theorem anomaly_insights_zero_expected_witness:
  "generate_anomaly_insights iso_strftime
     [[(''date'', Str ''2024-05-31 00:00:00''), (''profit'', Num (Finite 5)),
       (''z_score'', Num (Finite 4)), (''is_anomaly'', Flag True),
       (''expected_value'', Num (Finite 0)), (''detection_method'', Str ''z-score''),
       (''metric_name'', Str ''profit''), (''table_name'', Str ''finance'')],
      [(''date'', Str ''2024-06-30 00:00:00''), (''profit'', Num (Finite (- 30))),
       (''z_score'', Num (Finite 4)), (''is_anomaly'', Flag True),
       (''expected_value'', Num (Finite 20)), (''detection_method'', Str ''z-score''),
       (''metric_name'', Str ''profit''), (''table_name'', Str ''finance'')]] ''Profit''
   = Inr [DeviationText ''Profit'' ''2024-05-31'' (Finite 0) ''higher'' (Finite 5) (Finite 0),
          DeviationText ''Profit'' ''2024-06-30'' (Finite 250) ''lower'' (Finite (- 30)) (Finite 20)]"
proof -
  let ?Z = "[[(''date'', Str ''2024-05-31 00:00:00''), (''profit'', Num (Finite 5)),
       (''z_score'', Num (Finite 4)), (''is_anomaly'', Flag True),
       (''expected_value'', Num (Finite 0)), (''detection_method'', Str ''z-score''),
       (''metric_name'', Str ''profit''), (''table_name'', Str ''finance'')],
      [(''date'', Str ''2024-06-30 00:00:00''), (''profit'', Num (Finite (- 30))),
       (''z_score'', Num (Finite 4)), (''is_anomaly'', Flag True),
       (''expected_value'', Num (Finite 20)), (''detection_method'', Str ''z-score''),
       (''metric_name'', Str ''profit''), (''table_name'', Str ''finance'')]]"
  have name: "?Z \<noteq> [] \<longrightarrow> map_of (hd ?Z) ''metric_name'' = Some (Str ''profit'')" by simp
  have wz: "list_all (narratable_row iso_strftime ''profit'') (take 3 ?Z)"
    by (simp add: narratable_row_def iso_strftime_def numeric_cell_def)
  note z = anomaly_insights_zero_expected [OF name wz, of "''Profit''"]
  have ez: "generate_anomaly_insights iso_strftime ?Z ''Profit''
       = Inr [DeviationText ''Profit'' ''2024-05-31'' (Finite 0) ''higher'' (Finite 5) (Finite 0),
          DeviationText ''Profit'' ''2024-06-30'' (Finite 250) ''lower'' (Finite (- 30)) (Finite 20)]"
    by (simp add: generate_anomaly_insights_def row_insight_def iso_strftime_def np_greater_def)
  show ?thesis
    using z unfolding ez sum.case by simp
qed

text \<open>
  C10 as stated fails twice. On a frame of four flagged rows whose expected value is 0 the
  fourth row gets no narrative: three are returned. And the function is not total on every
  frame carrying its metric column: with a null date in the first row the date cannot be
  printed and the call raises, as it does on a frame with no \<^verbatim>\<open>date\<close> column.
\<close>

theorem anomaly_insights_total_counterexample:
  "generate_anomaly_insights iso_strftime
     [[(''date'', Str ''2024-05-31 00:00:00''), (''profit'', Num (Finite 5)),
       (''expected_value'', Num (Finite 0)), (''metric_name'', Str ''profit'')],
      [(''date'', Str ''2024-06-30 00:00:00''), (''profit'', Num (Finite 6)),
       (''expected_value'', Num (Finite 0)), (''metric_name'', Str ''profit'')],
      [(''date'', Str ''2024-07-31 00:00:00''), (''profit'', Num (Finite 7)),
       (''expected_value'', Num (Finite 0)), (''metric_name'', Str ''profit'')],
      [(''date'', Str ''2024-08-31 00:00:00''), (''profit'', Num (Finite 8)),
       (''expected_value'', Num (Finite 0)), (''metric_name'', Str ''profit'')]] ''Profit''
   = Inr [DeviationText ''Profit'' ''2024-05-31'' (Finite 0) ''higher'' (Finite 5) (Finite 0),
          DeviationText ''Profit'' ''2024-06-30'' (Finite 0) ''higher'' (Finite 6) (Finite 0),
          DeviationText ''Profit'' ''2024-07-31'' (Finite 0) ''higher'' (Finite 7) (Finite 0)]
 \<and> generate_anomaly_insights iso_strftime
     [[(''date'', Num NaN), (''profit'', Num (Finite 5)),
       (''expected_value'', Num (Finite 0)), (''metric_name'', Str ''profit'')]] ''Profit''
   = Inl ValueError
 \<and> generate_anomaly_insights iso_strftime
     [[(''profit'', Num (Finite 5)),
       (''expected_value'', Num (Finite 0)), (''metric_name'', Str ''profit'')]] ''Profit''
   = Inl KeyError"
  by (simp add: generate_anomaly_insights_def row_insight_def iso_strftime_def np_greater_def)



subsection \<open>C4: forecast accuracy\<close>


lemma rint_between:
  assumes "real_of_int k - 1 / 2 < x" and "x < real_of_int k + 1 / 2"
  shows "rint x = real_of_int k"
proof (cases "real_of_int k \<le> x")
  case True
  then have f: "\<lfloor>x\<rfloor> = k" using assms by (intro floor_unique) auto
  show ?thesis using assms True by (simp add: rint_def f Let_def)
next
  case False
  then have f: "\<lfloor>x\<rfloor> = k - 1" using assms by (intro floor_unique) auto
  show ?thesis using assms False by (simp add: rint_def f Let_def)
qed

lemma zip_map_fst_snd: "zip (map fst xs) (map snd xs) = xs"
  by (induction xs) simp_all

lemma np_sum_Finite': "np_sum (map (\<lambda>x. Finite (f x)) xs) = Finite (sum_list (map f xs))"
  using np_sum_Finite [of "map f xs"] by (simp add: o_def)

lemma calculate_accuracy_finite:
  assumes "merge_on_ds actual_df forecast_df = map finite_pair ps" and "ps \<noteq> []"
  shows "calculate_accuracy actual_df forecast_df =
           \<lparr>rmse = np_round (Finite (root_mean_square_error ps)) 2,
            mae = np_round (Finite (mean_absolute_error ps)) 2,
            mape = np_round (Finite (guarded_mape ps)) 2\<rparr>"
proof -
  have n: "real (length ps) \<noteq> 0" using assms(2) by simp
  have "0 \<le> sum_list (map (\<lambda>(a, p). (a - p)\<^sup>2) ps)"
    by (rule sum_list_nonneg) auto
  then have nonneg: "\<not> sum_list (map (\<lambda>(a, p). (a - p)\<^sup>2) ps) / real (length ps) < 0"
    by (simp add: not_less)
  have sq: "np_mean (map (\<lambda>(a, p). np_mul (np_sub a p) (np_sub a p)) (map finite_pair ps))
        = Finite (sum_list (map (\<lambda>(a, p). (a - p)\<^sup>2) ps) / real (length ps))"
    using n by (simp add: np_mean_def o_def split_def finite_pair_def np_sum_Finite' power2_eq_square)
  have ab: "np_mean (map (\<lambda>(a, p). np_abs (np_sub a p)) (map finite_pair ps))
        = Finite (sum_list (map (\<lambda>(a, p). \<bar>a - p\<bar>) ps) / real (length ps))"
    using n by (simp add: np_mean_def o_def split_def finite_pair_def np_sum_Finite')
  have pc: "np_mean (map (\<lambda>(a, p). np_abs (np_div (np_sub a p) (if a \<noteq> Finite 0 then a else Finite 1)))
                      (map finite_pair ps))
        = Finite (sum_list (map (\<lambda>(a, p). \<bar>a - p\<bar> / (if a \<noteq> 0 then \<bar>a\<bar> else 1)) ps)
                    / real (length ps))"
  proof -
    have m: "map (\<lambda>(a, p). np_abs (np_div (np_sub a p) (if a \<noteq> Finite 0 then a else Finite 1)))
                 (map finite_pair ps)
           = map (\<lambda>x. Finite (\<bar>fst x - snd x\<bar> / (if fst x \<noteq> 0 then \<bar>fst x\<bar> else 1))) ps"
      by (simp add: finite_pair_def split_def)
    show ?thesis
      unfolding np_mean_def m np_sum_Finite' using n by (simp add: split_def)
  qed
  show ?thesis
    using assms(2) nonneg
    unfolding calculate_accuracy_def Let_def assms(1) zip_map_fst_snd sq ab pc
    by (simp add: root_mean_square_error_def mean_absolute_error_def guarded_mape_def)
qed


lemma merge_on_ds_empty: "merge_on_ds actual_df forecast_df = [] \<Longrightarrow>
  calculate_accuracy actual_df forecast_df = \<lparr>rmse = Finite 0, mae = Finite 0, mape = Finite 0\<rparr>"
  by (simp add: calculate_accuracy_def)

lemma merge_three:
  assumes "distinct [d1, d2, d3]"
  shows "merge_on_ds [(d1, Finite 10), (d2, Finite 20), (d3, Finite 30)]
                     [(d1, Finite 10), (d2, Finite 18), (d3, Finite 33)]
           = map finite_pair [(10, 10), (20, 18), (30, 33)]"
  using assms by (auto simp add: merge_on_ds_def finite_pair_def)

lemma rmse_example: "rint (root_mean_square_error [(10, 10), (20, 18), (30, 33)] * 100) = 208"
proof -
  have v: "root_mean_square_error [(10, 10), (20, 18), (30, 33)] = sqrt (13 / 3)"
    by (simp add: root_mean_square_error_def)
  have lo: "(2075 / 1000 :: real) < sqrt (13 / 3)"
    by (rule real_less_rsqrt) (simp add: power2_eq_square)
  have hi: "sqrt (13 / 3) < (2085 / 1000 :: real)"
    by (rule real_less_lsqrt) (simp_all add: power2_eq_square)
  have "rint (sqrt (13 / 3) * 100) = real_of_int 208"
    by (rule rint_between) (use lo hi in simp_all)
  then show ?thesis by (simp add: v)
qed

lemma mae_example: "rint (mean_absolute_error [(10, 10), (20, 18), (30, 33)] * 100) = 167"
proof -
  have "rint (mean_absolute_error [(10, 10), (20, 18), (30, 33)] * 100) = real_of_int 167"
    by (rule rint_between) (simp_all add: mean_absolute_error_def)
  then show ?thesis by simp
qed

lemma mape_example: "rint (guarded_mape [(10, 10), (20, 18), (30, 33)] * 100) = 667"
proof -
  have "rint (guarded_mape [(10, 10), (20, 18), (30, 33)] * 100) = real_of_int 667"
    by (rule rint_between) (simp_all add: guarded_mape_def)
  then show ?thesis by simp
qed

text \<open>
  C4 (amended). \<open>calculate_accuracy\<close>, applied to the inner join of the actual and
  forecast series on date, returns, each rounded to two decimals, RMSE = sqrt (mean of
  squared errors), MAE = mean of absolute errors, and MAPE = mean (|error| / |actual|)
  \<times> 100 where the denominator is replaced by 1 only when the actual value is 0 (an actual
  value strictly between -1 and 1 other than 0 divides as it is); an empty join returns
  zeros. On actual = [10, 20, 30] and predicted = [10, 18, 33] it returns RMSE = 2.08,
  MAE = 1.67, MAPE = 6.67.
\<close>

theorem accuracy_metrics:
  "(merge_on_ds actual_df forecast_df = map finite_pair ps \<and> ps \<noteq> [] \<longrightarrow>
      calculate_accuracy actual_df forecast_df =
        \<lparr>rmse = np_round (Finite (root_mean_square_error ps)) 2,
         mae = np_round (Finite (mean_absolute_error ps)) 2,
         mape = np_round (Finite (guarded_mape ps)) 2\<rparr>)
 \<and> (merge_on_ds actual_df forecast_df = [] \<longrightarrow>
      calculate_accuracy actual_df forecast_df = \<lparr>rmse = Finite 0, mae = Finite 0, mape = Finite 0\<rparr>)
 \<and> (distinct [d1, d2, d3] \<longrightarrow>
      calculate_accuracy [(d1, Finite 10), (d2, Finite 20), (d3, Finite 30)]
                         [(d1, Finite 10), (d2, Finite 18), (d3, Finite 33)]
        = \<lparr>rmse = Finite (208 / 100), mae = Finite (167 / 100), mape = Finite (667 / 100)\<rparr>)"
proof (intro conjI impI)
  assume "merge_on_ds actual_df forecast_df = map finite_pair ps \<and> ps \<noteq> []"
  then show "calculate_accuracy actual_df forecast_df =
        \<lparr>rmse = np_round (Finite (root_mean_square_error ps)) 2,
         mae = np_round (Finite (mean_absolute_error ps)) 2,
         mape = np_round (Finite (guarded_mape ps)) 2\<rparr>"
    using calculate_accuracy_finite by blast
next
  assume "merge_on_ds actual_df forecast_df = []"
  then show "calculate_accuracy actual_df forecast_df
               = \<lparr>rmse = Finite 0, mae = Finite 0, mape = Finite 0\<rparr>"
    by (rule merge_on_ds_empty)
next
  assume d: "distinct [d1, d2, d3]"
  have ne: "[(10, 10), (20, 18), (30, 33)] \<noteq> ([] :: (real \<times> real) list)" by simp
  show "calculate_accuracy [(d1, Finite 10), (d2, Finite 20), (d3, Finite 30)]
                         [(d1, Finite 10), (d2, Finite 18), (d3, Finite 33)]
        = \<lparr>rmse = Finite (208 / 100), mae = Finite (167 / 100), mape = Finite (667 / 100)\<rparr>"
    unfolding calculate_accuracy_finite [OF merge_three [OF d] ne]
    by (simp add: rmse_example mae_example mape_example)
qed

theorem accuracy_metrics_witness:
  "calculate_accuracy
     [(''2024-01-31'', Finite 10), (''2024-02-29'', Finite 20), (''2024-03-31'', Finite 30)]
     [(''2024-01-31'', Finite 10), (''2024-02-29'', Finite 18), (''2024-03-31'', Finite 33),
      (''2024-04-30'', Finite 35)]
    = \<lparr>rmse = np_round (Finite (sqrt (13 / 3))) 2, mae = np_round (Finite (5 / 3)) 2,
       mape = np_round (Finite (20 / 3)) 2\<rparr>
 \<and> calculate_accuracy [(''2024-01-31'', Finite 10)] [(''2024-02-29'', Finite 12)]
    = \<lparr>rmse = Finite 0, mae = Finite 0, mape = Finite 0\<rparr>
 \<and> calculate_accuracy
     [(''2024-01-31'', Finite 10), (''2024-02-29'', Finite 20), (''2024-03-31'', Finite 30)]
     [(''2024-01-31'', Finite 10), (''2024-02-29'', Finite 18), (''2024-03-31'', Finite 33)]
    = \<lparr>rmse = Finite (208 / 100), mae = Finite (167 / 100), mape = Finite (667 / 100)\<rparr>"
proof -
  have m1: "merge_on_ds
     [(''2024-01-31'', Finite 10), (''2024-02-29'', Finite 20), (''2024-03-31'', Finite 30)]
     [(''2024-01-31'', Finite 10), (''2024-02-29'', Finite 18), (''2024-03-31'', Finite 33),
      (''2024-04-30'', Finite 35)] = map finite_pair [(10, 10), (20, 18), (30, 33)]
     \<and> [(10, 10), (20, 18), (30, 33)] \<noteq> ([] :: (real \<times> real) list)"
    by (simp add: merge_on_ds_def finite_pair_def)
  have m2: "merge_on_ds [(''2024-01-31'', Finite 10)] [(''2024-02-29'', Finite 12)] = []"
    by (simp add: merge_on_ds_def)
  have d: "distinct [''2024-01-31'', ''2024-02-29'', ''2024-03-31'']" by simp
  have v: "root_mean_square_error [(10, 10), (20, 18), (30, 33)] = sqrt (13 / 3)"
     "mean_absolute_error [(10, 10), (20, 18), (30, 33)] = 5 / 3"
     "guarded_mape [(10, 10), (20, 18), (30, 33)] = 20 / 3"
    by (simp_all add: root_mean_square_error_def mean_absolute_error_def guarded_mape_def)
  show ?thesis
    using accuracy_metrics
            [of "[(''2024-01-31'', Finite 10), (''2024-02-29'', Finite 20), (''2024-03-31'', Finite 30)]"
                "[(''2024-01-31'', Finite 10), (''2024-02-29'', Finite 18), (''2024-03-31'', Finite 33),
                  (''2024-04-30'', Finite 35)]"
                "[(10, 10), (20, 18), (30, 33)]"
                "''2024-01-31''" "''2024-02-29''" "''2024-03-31''"]
          accuracy_metrics
            [of "[(''2024-01-31'', Finite 10)]" "[(''2024-02-29'', Finite 12)]" "[]"
                "''2024-01-31''" "''2024-02-29''" "''2024-03-31''"]
          m1 m2 d
    unfolding v by (simp del: np_round.simps distinct.simps)
qed

text \<open>
  C4 as stated fails for an actual value between 0 and 1: with actual 0.5 and predicted 1
  the code returns MAPE = 100, where the denominator \<open>max (|actual|, 1)\<close> of the claim
  gives 50.
\<close>

theorem mape_denominator_counterexample:
  "mape (calculate_accuracy [(''2024-01-31'', Finite (1 / 2))] [(''2024-01-31'', Finite 1)]) = Finite 100
 \<and> np_round (Finite (claimed_mape [(1 / 2, 1)])) 2 = Finite 50"
proof -
  have r1: "rint (10000 :: real) = real_of_int 10000" by (rule rint_between) simp_all
  have r2: "rint (5000 :: real) = real_of_int 5000" by (rule rint_between) simp_all
  show ?thesis
    using r1 r2
    by (simp add: calculate_accuracy_def merge_on_ds_def np_mean_def np_sum_def claimed_mape_def)
qed




subsection \<open>C6: cleaning a frame\<close>

lemma fillna_column_simps [simp]:
  "columns (fillna_column j v df) = columns df"
  "length (rows (fillna_column j v df)) = length (rows df)"
  by (simp_all add: fillna_column_def)

lemma wf_fillna_column: "wf_dataframe df \<Longrightarrow> wf_dataframe (fillna_column j v df)"
  by (auto simp add: wf_dataframe_def fillna_column_def list_all_iff)

lemma fillna_column_cell:
  assumes "i < length (rows df)" and "k < length (rows df ! i)"
  shows "rows (fillna_column j v df) ! i ! k
           = (if k = j \<and> isnull (rows df ! i ! k) then v else rows df ! i ! k)"
  using assms by (auto simp add: fillna_column_def nth_list_update)

lemma column_cells_fillna_other:
  "k \<noteq> j \<Longrightarrow> column_cells (fillna_column j v df) k = column_cells df k"
  by (simp add: column_cells_def fillna_column_def)

lemma no_null_in_column:
  "\<not> list_ex isnull (column_cells df j) \<Longrightarrow> i < length (rows df) \<Longrightarrow> \<not> isnull (rows df ! i ! j)"
  by (auto simp add: list_ex_iff column_cells_def)

lemma numeric_step_simps [simp]:
  "columns (numeric_step j df) = columns df"
  "length (rows (numeric_step j df)) = length (rows df)"
  by (simp_all add: numeric_step_def)

lemma categorical_step_simps [simp]:
  "columns (categorical_step dc j df) = columns df"
  "length (rows (categorical_step dc j df)) = length (rows df)"
  by (simp_all add: categorical_step_def)

lemma wf_numeric_step: "wf_dataframe df \<Longrightarrow> wf_dataframe (numeric_step j df)"
  by (simp add: numeric_step_def wf_fillna_column)

lemma wf_categorical_step: "wf_dataframe df \<Longrightarrow> wf_dataframe (categorical_step dc j df)"
  by (simp add: categorical_step_def wf_fillna_column)

lemma numeric_step_cell:
  assumes "i < length (rows df)" and "k < length (rows df ! i)"
  shows "rows (numeric_step j df) ! i ! k
           = (if k = j \<and> isnull (rows df ! i ! k) then Num (pd_median (column_cells df j))
              else rows df ! i ! k)"
  using assms no_null_in_column [of df j i]
  by (auto simp add: numeric_step_def fillna_column_cell)

lemma categorical_step_cell:
  assumes "i < length (rows df)" and "k < length (rows df ! i)"
  shows "rows (categorical_step dc j df) ! i ! k
           = (if k = j \<and> fst (columns df ! j) \<noteq> dc \<and> isnull (rows df ! i ! k) then Str ''Unknown''
              else rows df ! i ! k)"
  using assms no_null_in_column [of df j i]
  by (auto simp add: categorical_step_def fillna_column_cell)

lemma column_cells_numeric_step_other:
  "k \<noteq> j \<Longrightarrow> column_cells (numeric_step j df) k = column_cells df k"
  by (simp add: numeric_step_def column_cells_fillna_other)

lemma wf_row_length:
  "wf_dataframe df \<Longrightarrow> i < length (rows df) \<Longrightarrow> length (rows df ! i) = length (columns df)"
  by (simp add: wf_dataframe_def list_all_length)

lemma fill_numeric_step: "fill_numeric (j # js) df = fill_numeric js (numeric_step j df)"
  by (simp add: numeric_step_def)

lemma fill_categorical_step:
  "fill_categorical dc (j # js) df = fill_categorical dc js (categorical_step dc j df)"
  by (simp add: categorical_step_def)

lemma fill_numeric_simps:
  "columns (fill_numeric js df) = columns df"
  "length (rows (fill_numeric js df)) = length (rows df)"
  by (induction js arbitrary: df) (simp_all only: fill_numeric.simps(1) fill_numeric_step numeric_step_simps)

lemma fill_categorical_simps:
  "columns (fill_categorical dc js df) = columns df"
  "length (rows (fill_categorical dc js df)) = length (rows df)"
  by (induction js arbitrary: df)
     (simp_all only: fill_categorical.simps(1) fill_categorical_step categorical_step_simps)

lemma wf_fill_numeric: "wf_dataframe df \<Longrightarrow> wf_dataframe (fill_numeric js df)"
  by (induction js arbitrary: df) (simp_all only: fill_numeric.simps(1) fill_numeric_step wf_numeric_step)

lemma wf_fill_categorical: "wf_dataframe df \<Longrightarrow> wf_dataframe (fill_categorical dc js df)"
  by (induction js arbitrary: df)
     (simp_all only: fill_categorical.simps(1) fill_categorical_step wf_categorical_step)

lemma fill_numeric_cell:
  assumes "wf_dataframe df" and "distinct js" and "i < length (rows df)" and "k < length (columns df)"
  shows "rows (fill_numeric js df) ! i ! k
           = (if k \<in> set js \<and> isnull (rows df ! i ! k) then Num (pd_median (column_cells df k))
              else rows df ! i ! k)"
  using assms
proof (induction js arbitrary: df)
  case Nil
  then show ?case by simp
next
  case (Cons j js)
  let ?df = "numeric_step j df"
  have wf: "wf_dataframe ?df" using Cons.prems(1) by (rule wf_numeric_step)
  have k: "k < length (rows df ! i)"
    using Cons.prems by (simp add: wf_row_length)
  have step: "rows ?df ! i ! k
       = (if k = j \<and> isnull (rows df ! i ! k) then Num (pd_median (column_cells df j))
          else rows df ! i ! k)"
    using Cons.prems(3) k by (rule numeric_step_cell)
  have ih: "rows (fill_numeric js ?df) ! i ! k
       = (if k \<in> set js \<and> isnull (rows ?df ! i ! k) then Num (pd_median (column_cells ?df k))
          else rows ?df ! i ! k)"
    using Cons.IH [of ?df] wf Cons.prems by simp
  show ?case
  proof (cases "k = j")
    case True
    then have "k \<notin> set js" using Cons.prems(2) by simp
    then show ?thesis unfolding fill_numeric_step using True ih step by simp
  next
    case False
    then show ?thesis
      unfolding fill_numeric_step using ih step by (simp add: column_cells_numeric_step_other)
  qed
qed

lemma fill_categorical_cell:
  assumes "wf_dataframe df" and "distinct js" and "i < length (rows df)" and "k < length (columns df)"
  shows "rows (fill_categorical dc js df) ! i ! k
           = (if k \<in> set js \<and> fst (columns df ! k) \<noteq> dc \<and> isnull (rows df ! i ! k)
              then Str ''Unknown'' else rows df ! i ! k)"
  using assms
proof (induction js arbitrary: df)
  case Nil
  then show ?case by simp
next
  case (Cons j js)
  let ?df = "categorical_step dc j df"
  have wf: "wf_dataframe ?df" using Cons.prems(1) by (rule wf_categorical_step)
  have k: "k < length (rows df ! i)"
    using Cons.prems by (simp add: wf_row_length)
  have step: "rows ?df ! i ! k
       = (if k = j \<and> fst (columns df ! j) \<noteq> dc \<and> isnull (rows df ! i ! k) then Str ''Unknown''
          else rows df ! i ! k)"
    using Cons.prems(3) k by (rule categorical_step_cell)
  have ih: "rows (fill_categorical dc js ?df) ! i ! k
       = (if k \<in> set js \<and> fst (columns ?df ! k) \<noteq> dc \<and> isnull (rows ?df ! i ! k)
          then Str ''Unknown'' else rows ?df ! i ! k)"
    using Cons.IH [of ?df] wf Cons.prems by simp
  show ?case
  proof (cases "k = j")
    case True
    then have "k \<notin> set js" using Cons.prems(2) by simp
    then show ?thesis unfolding fill_categorical_step using True ih step by simp
  next
    case False
    then show ?thesis
      unfolding fill_categorical_step using ih step by simp
  qed
qed

lemma set_drop_duplicates: "set (drop_duplicates xs) = set xs"
  by (induction xs rule: drop_duplicates.induct) auto

lemma distinct_drop_duplicates: "distinct (drop_duplicates xs)"
  by (induction xs rule: drop_duplicates.induct) (auto simp add: set_drop_duplicates)

lemma drop_duplicates_distinct: "distinct xs \<Longrightarrow> drop_duplicates xs = xs"
proof (induction xs)
  case Nil
  then show ?case by simp
next
  case (Cons x xs)
  then have "filter (\<lambda>y. y \<noteq> x) xs = xs" by (auto simp add: filter_id_conv)
  then show ?case using Cons by simp
qed

lemma index_of_Some: "index_of name xs = Some j \<Longrightarrow> j < length xs \<and> xs ! j = name"
  by (induction xs arbitrary: j) (auto split: if_splits)

lemma convert_cells_Inr:
  "convert_cells f cs = Inr ts \<Longrightarrow> length ts = length cs \<and> (\<forall>i<length cs. f (cs ! i) = Inr (ts ! i))"
proof (induction cs arbitrary: ts)
  case Nil
  then show ?case by simp
next
  case (Cons c cs)
  then show ?case
    by (auto split: sum.splits simp add: nth_Cons split: nat.splits)
qed

lemma convert_dates_columns:
  assumes "convert_dates to_datetime dc df = Inr cdf"
  shows "map fst (columns cdf) = map fst (columns df)"
    and "length (columns cdf) = length (columns df)"
    and "index_of dc (map fst (columns df)) = Some j \<Longrightarrow> columns cdf ! j = (dc, Datetime64)"
    and "index_of dc (map fst (columns df)) = None \<Longrightarrow> cdf = df"
    and "length (rows cdf) = length (rows df)"
proof -
  show "index_of dc (map fst (columns df)) = None \<Longrightarrow> cdf = df"
    using assms by (simp add: convert_dates_def)
  show "length (columns cdf) = length (columns df)"
    using assms by (auto simp add: convert_dates_def split: option.splits sum.splits)
  show "index_of dc (map fst (columns df)) = Some j \<Longrightarrow> columns cdf ! j = (dc, Datetime64)"
    using assms index_of_Some [of dc "map fst (columns df)" j]
    by (auto simp add: convert_dates_def split: option.splits sum.splits)
  show "map fst (columns cdf) = map fst (columns df)"
  proof (cases "index_of dc (map fst (columns df))")
    case None
    then show ?thesis using assms by (simp add: convert_dates_def)
  next
    case (Some k)
    then have "k < length (columns df)" "fst (columns df ! k) = dc"
      using index_of_Some [of dc "map fst (columns df)" k] by auto
    then show ?thesis
      using assms Some
      by (auto simp add: convert_dates_def map_update list_update_same_conv split: sum.splits)
  qed
  show "length (rows cdf) = length (rows df)"
    using assms
    by (auto simp add: convert_dates_def column_cells_def split: option.splits sum.splits
          dest!: convert_cells_Inr)
qed

lemma wf_convert_dates:
  assumes "convert_dates to_datetime dc df = Inr cdf" and "wf_dataframe df"
  shows "wf_dataframe cdf"
  using assms
  by (auto simp add: convert_dates_def wf_dataframe_def list_all_iff split: option.splits sum.splits
        dest!: set_zip_leftD)

lemma set_np_insort: "set (np_insort x xs) = insert x (set xs)"
  by (induction xs) auto

lemma length_np_insort: "length (np_insort x xs) = Suc (length xs)"
  by (induction xs) auto

lemma set_np_sort: "set (np_sort xs) = set xs"
  by (induction xs) (simp_all add: np_sort_def set_np_insort)

lemma length_np_sort: "length (np_sort xs) = length xs"
  by (induction xs) (simp_all add: np_sort_def length_np_insort)

lemma pd_median_Finite:
  assumes "list_all finite_or_null cs" and "list_ex (\<lambda>c. \<not> isnull c) cs"
  shows "\<exists>m. pd_median cs = Finite m"
proof -
  let ?valid = "np_sort (filter (\<lambda>x. x \<noteq> NaN) (map cell_number cs))"
  let ?n = "length ?valid"
  have fin: "\<And>x. x \<in> set ?valid \<Longrightarrow> \<exists>r. x = Finite r"
  proof -
    fix x assume "x \<in> set ?valid"
    then obtain c where c: "c \<in> set cs" "x = cell_number c" "x \<noteq> NaN"
      by (auto simp add: set_np_sort)
    then have "finite_or_null c" using assms(1) by (simp add: list_all_iff)
    then show "\<exists>r. x = Finite r"
      using c by (auto simp add: finite_or_null_def cell_number_def split: cell.splits npfloat.splits)
  qed
  obtain c where c: "c \<in> set cs" "\<not> isnull c" using assms(2) by (auto simp add: list_ex_iff)
  then have "finite_or_null c" using assms(1) by (simp add: list_all_iff)
  then have "cell_number c \<noteq> NaN"
    using c by (auto simp add: finite_or_null_def cell_number_def isnull_def split: cell.splits npfloat.splits)
  then have "cell_number c \<in> set ?valid" using c by (simp add: set_np_sort)
  then have pos: "0 < ?n" by (auto simp add: length_greater_0_conv simp del: length_0_conv)
  have nth: "\<And>k. k < ?n \<Longrightarrow> \<exists>r. ?valid ! k = Finite r"
    using fin nth_mem by blast
  show ?thesis
  proof (cases "odd ?n")
    case True
    have "?n div 2 < ?n" using pos by simp
    then obtain r where "?valid ! (?n div 2) = Finite r" using nth by blast
    then show ?thesis using True pos by (simp add: pd_median_def Let_def)
  next
    case False
    have "?n div 2 < ?n" "?n div 2 - 1 < ?n" using pos by linarith+
    then obtain r1 r2 where "?valid ! (?n div 2) = Finite r1" "?valid ! (?n div 2 - 1) = Finite r2"
      using nth by blast
    then have "pd_median cs = Finite ((r2 + r1) / 2)"
      using False pos by (simp add: pd_median_def Let_def)
    then show ?thesis by blast
  qed
qed

lemma select_dtypes_props:
  "distinct (select_dtypes ts df)"
  "j \<in> set (select_dtypes ts df) \<longleftrightarrow> j < length (columns df) \<and> snd (columns df ! j) \<in> set ts"
  by (auto simp add: select_dtypes_def)

lemma select_dtypes_cong: "columns df' = columns df \<Longrightarrow> select_dtypes ts df' = select_dtypes ts df"
  by (simp add: select_dtypes_def)

lemma convert_dates_cell:
  assumes "convert_dates to_datetime dc df = Inr cdf" and "wf_dataframe df"
      and "index_of dc (map fst (columns df)) = Some j" and "i < length (rows df)"
  shows "to_datetime (rows df ! i ! j) = Inr (rows cdf ! i ! j)"
proof -
  obtain ts where ts: "convert_cells to_datetime (column_cells df j) = Inr ts"
      and cdf: "cdf = df\<lparr>columns := (columns df)[j := (dc, Datetime64)],
                         rows := map (\<lambda>(r, t). r[j := t]) (zip (rows df) ts)\<rparr>"
    using assms(1,3) by (auto simp add: convert_dates_def split: sum.splits)
  have len: "length ts = length (rows df)"
    and conv: "\<forall>i<length (rows df). to_datetime (column_cells df j ! i) = Inr (ts ! i)"
    using convert_cells_Inr [OF ts] by (simp_all add: column_cells_def)
  have j: "j < length (rows df ! i)"
    using index_of_Some [OF assms(3)] wf_row_length [OF assms(2,4)] by simp
  have "rows cdf ! i ! j = ts ! i"
    using assms(4) len j by (simp add: cdf)
  then show ?thesis
    using conv assms(4) by (simp add: column_cells_def)
qed

lemma clean_dataframe_unfold:
  assumes "convert_dates to_datetime dc df = Inr cdf"
  shows "clean_dataframe to_datetime df dc
           = Inr (fill_categorical dc (select_dtypes [Object] cdf)
                    (fill_numeric (select_dtypes [Float64, Int64] cdf)
                       (cdf\<lparr>rows := drop_duplicates (rows cdf)\<rparr>)))"
proof -
  let ?ddf = "cdf\<lparr>rows := drop_duplicates (rows cdf)\<rparr>"
  have n: "select_dtypes [Float64, Int64] ?ddf = select_dtypes [Float64, Int64] cdf"
    by (rule select_dtypes_cong) simp
  have c: "select_dtypes [Object] (fill_numeric (select_dtypes [Float64, Int64] cdf) ?ddf)
             = select_dtypes [Object] cdf"
    by (rule select_dtypes_cong) (simp add: fill_numeric_simps)
  show ?thesis
    by (simp add: clean_dataframe_def assms Let_def n c)
qed

lemma clean_dataframe_cells:
  assumes wf: "wf_dataframe df" and conv: "convert_dates to_datetime dc df = Inr cdf"
  shows "\<exists>out. clean_dataframe to_datetime df dc = Inr out
           \<and> columns out = columns cdf
           \<and> length (rows out) = length (drop_duplicates (rows cdf))
           \<and> (\<forall>i<length (drop_duplicates (rows cdf)). \<forall>j<length (columns cdf).
                 rows out ! i ! j = cleaned_cell dc (columns cdf) (drop_duplicates (rows cdf)) i j)"
proof -
  let ?d = "drop_duplicates (rows cdf)"
  let ?ddf = "cdf\<lparr>rows := ?d\<rparr>"
  let ?nums = "select_dtypes [Float64, Int64] cdf"
  let ?cats = "select_dtypes [Object] cdf"
  let ?ndf = "fill_numeric ?nums ?ddf"
  let ?out = "fill_categorical dc ?cats ?ndf"
  have wfc: "wf_dataframe cdf" using conv wf by (rule wf_convert_dates)
  have wfd: "wf_dataframe ?ddf"
    using wfc by (simp add: wf_dataframe_def list_all_iff set_drop_duplicates)
  have wfn: "wf_dataframe ?ndf" using wfd by (rule wf_fill_numeric)
  have cols: "columns ?ndf = columns cdf" "columns ?out = columns cdf"
    by (simp_all add: fill_numeric_simps fill_categorical_simps)
  have lens: "length (rows ?ndf) = length ?d" "length (rows ?out) = length ?d"
    by (simp_all add: fill_numeric_simps fill_categorical_simps)
  have cell: "rows ?out ! i ! j = cleaned_cell dc (columns cdf) ?d i j"
    if i: "i < length ?d" and j: "j < length (columns cdf)" for i j
  proof -
    have n: "rows ?ndf ! i ! j
        = (if j \<in> set ?nums \<and> isnull (?d ! i ! j) then Num (pd_median (column_cells ?ddf j))
           else ?d ! i ! j)"
      using fill_numeric_cell [where df = "?ddf" and js = "?nums" and i = i and k = j]
            wfd select_dtypes_props(1) i j
      by simp
    have c: "rows ?out ! i ! j
        = (if j \<in> set ?cats \<and> fst (columns cdf ! j) \<noteq> dc \<and> isnull (rows ?ndf ! i ! j)
           then Str ''Unknown'' else rows ?ndf ! i ! j)"
      using fill_categorical_cell [where df = "?ndf" and js = "?cats" and i = i and k = j and dc = dc]
            wfn select_dtypes_props(1) i j
      by (simp add: lens cols)
    have mem: "j \<in> set ?nums \<longleftrightarrow> snd (columns cdf ! j) \<in> {Float64, Int64}"
         "j \<in> set ?cats \<longleftrightarrow> snd (columns cdf ! j) = Object"
      using j by (simp_all add: select_dtypes_props(2))
    show ?thesis
      unfolding c n mem cleaned_cell_def
      by (auto simp add: column_cells_def)
  qed
  show ?thesis
    unfolding clean_dataframe_unfold [OF conv]
    using cols lens cell by blast
qed

lemma upt3: "[0..<3] = [0, 1, 2]"
  by (simp add: upt_rec)

lemma clean_sales_example:
  "clean_dataframe iso_to_datetime
     \<lparr>columns = [(''date'', Object), (''region'', Object), (''units_sold'', Float64)],
      rows = [[Str ''2024-01-31'', Str ''North'', Num (Finite 10)],
              [Str ''2024-01-31'', Num NaN, Num NaN],
              [Str ''2024-01-31'', Str ''North'', Num (Finite 10)],
              [Str ''2024-02-29'', Str ''South'', Num (Finite 30)],
              [Str ''2024-02-29'', Str ''East'', Num (Finite 20)]]\<rparr> ''date''
   = Inr \<lparr>columns = [(''date'', Datetime64), (''region'', Object), (''units_sold'', Float64)],
          rows = [[Timestamp ''2024-01-31 00:00:00'', Str ''North'', Num (Finite 10)],
                  [Timestamp ''2024-01-31 00:00:00'', Str ''Unknown'', Num (Finite 20)],
                  [Timestamp ''2024-02-29 00:00:00'', Str ''South'', Num (Finite 30)],
                  [Timestamp ''2024-02-29 00:00:00'', Str ''East'', Num (Finite 20)]]\<rparr>"
  by (simp add: clean_dataframe_def convert_dates_def column_cells_def iso_to_datetime_def
        select_dtypes_def fillna_column_def isnull_def pd_median_def np_sort_def cell_number_def
        upt3 Let_def)

text \<open>
  C6 (amended). For every well-formed input frame whose date column parses,
  \<open>clean_dataframe\<close> returns a frame with the same columns, the date column converted to
  the datetime dtype, and one row for each distinct row of the date-converted input
  (duplicates removed, the first kept, before any imputation). In it every null of a numeric
  column is replaced by the median of that column's non-null values, and every null of
  a non-date categorical column by \<open>Unknown\<close>; every other cell is unchanged. Hence a
  categorical column has no null, and a numeric column has no null provided it has at least
  one non-null value and its values are finite (the median of a column with no value is
  NaN, and filling with NaN changes nothing).
\<close>

theorem clean_dataframe_result:
  assumes "wf_dataframe df" and "convert_dates to_datetime date_column df = Inr cdf"
  shows "case clean_dataframe to_datetime df date_column of
           Inl e \<Rightarrow> False
         | Inr out \<Rightarrow>
             (let deduplicated = drop_duplicates (rows cdf) in
                columns out = columns cdf
              \<and> map fst (columns out) = map fst (columns df)
              \<and> (\<forall>j. index_of date_column (map fst (columns df)) = Some j \<longrightarrow>
                     columns out ! j = (date_column, Datetime64)
                   \<and> (\<forall>i<length (rows df). to_datetime (rows df ! i ! j) = Inr (rows cdf ! i ! j)))
              \<and> distinct deduplicated \<and> set deduplicated = set (rows cdf)
              \<and> length (rows out) = length deduplicated
              \<and> (\<forall>i<length deduplicated. \<forall>j<length (columns out).
                    rows out ! i ! j =
                      (if snd (columns out ! j) \<in> {Float64, Int64} \<and> isnull (deduplicated ! i ! j)
                       then Num (pd_median (map (\<lambda>r. r ! j) deduplicated))
                       else if snd (columns out ! j) = Object \<and> fst (columns out ! j) \<noteq> date_column
                               \<and> isnull (deduplicated ! i ! j)
                       then Str ''Unknown''
                       else deduplicated ! i ! j))
              \<and> (\<forall>j<length (columns out).
                    snd (columns out ! j) \<in> {Float64, Int64}
                    \<and> list_all finite_or_null (map (\<lambda>r. r ! j) deduplicated)
                    \<and> list_ex (\<lambda>c. \<not> isnull c) (map (\<lambda>r. r ! j) deduplicated)
                    \<longrightarrow> list_all (\<lambda>r. \<not> isnull (r ! j)) (rows out))
              \<and> (\<forall>j<length (columns out).
                    snd (columns out ! j) = Object \<and> fst (columns out ! j) \<noteq> date_column
                    \<longrightarrow> list_all (\<lambda>r. \<not> isnull (r ! j)) (rows out)))"
proof -
  let ?d = "drop_duplicates (rows cdf)"
  obtain out where out: "clean_dataframe to_datetime df date_column = Inr out"
    and cols: "columns out = columns cdf"
    and len: "length (rows out) = length ?d"
    and cell: "\<forall>i<length ?d. \<forall>j<length (columns cdf).
                 rows out ! i ! j = cleaned_cell date_column (columns cdf) ?d i j"
    using clean_dataframe_cells [OF assms] by blast
  have names: "map fst (columns out) = map fst (columns df)"
    using convert_dates_columns(1) [OF assms(2)] cols by simp
  have dates: "\<forall>j. index_of date_column (map fst (columns df)) = Some j \<longrightarrow>
                     columns out ! j = (date_column, Datetime64)
                   \<and> (\<forall>i<length (rows df). to_datetime (rows df ! i ! j) = Inr (rows cdf ! i ! j))"
    using convert_dates_columns(3) [OF assms(2)] convert_dates_cell [OF assms(2,1)] cols by simp
  have cells: "\<forall>i<length ?d. \<forall>j<length (columns out).
                    rows out ! i ! j =
                      (if snd (columns out ! j) \<in> {Float64, Int64} \<and> isnull (?d ! i ! j)
                       then Num (pd_median (map (\<lambda>r. r ! j) ?d))
                       else if snd (columns out ! j) = Object \<and> fst (columns out ! j) \<noteq> date_column
                               \<and> isnull (?d ! i ! j)
                       then Str ''Unknown''
                       else ?d ! i ! j)"
    using cell by (simp add: cols cleaned_cell_def)
  have numeric: "list_all (\<lambda>r. \<not> isnull (r ! j)) (rows out)"
    if j: "j < length (columns out)" and t: "snd (columns out ! j) \<in> {Float64, Int64}"
      and fin: "list_all finite_or_null (map (\<lambda>r. r ! j) ?d)"
      and ex: "list_ex (\<lambda>c. \<not> isnull c) (map (\<lambda>r. r ! j) ?d)" for j
  proof -
    obtain m where m: "pd_median (map (\<lambda>r. r ! j) ?d) = Finite m"
      using pd_median_Finite [OF fin ex] by blast
    have "\<not> isnull (rows out ! i ! j)" if "i < length ?d" for i
      using cells that j t m by (auto simp add: isnull_def)
    then show ?thesis by (simp add: list_all_length len)
  qed
  have categorical: "list_all (\<lambda>r. \<not> isnull (r ! j)) (rows out)"
    if j: "j < length (columns out)"
      and t: "snd (columns out ! j) = Object \<and> fst (columns out ! j) \<noteq> date_column" for j
  proof -
    have "\<not> isnull (rows out ! i ! j)" if "i < length ?d" for i
      using cells that j t by (auto simp add: isnull_def)
    then show ?thesis by (simp add: list_all_length len)
  qed
  show ?thesis
    unfolding out sum.case Let_def
    using cols names dates distinct_drop_duplicates [of "rows cdf"] set_drop_duplicates [of "rows cdf"]
      len cells numeric categorical
    by blast
qed

theorem clean_dataframe_result_witness:
  "clean_dataframe iso_to_datetime
     \<lparr>columns = [(''date'', Object), (''region'', Object), (''units_sold'', Float64)],
      rows = [[Str ''2024-01-31'', Str ''North'', Num (Finite 10)],
              [Str ''2024-01-31'', Num NaN, Num NaN],
              [Str ''2024-01-31'', Str ''North'', Num (Finite 10)],
              [Str ''2024-02-29'', Str ''South'', Num (Finite 30)],
              [Str ''2024-02-29'', Str ''East'', Num (Finite 20)]]\<rparr> ''date''
   = Inr \<lparr>columns = [(''date'', Datetime64), (''region'', Object), (''units_sold'', Float64)],
          rows = [[Timestamp ''2024-01-31 00:00:00'', Str ''North'', Num (Finite 10)],
                  [Timestamp ''2024-01-31 00:00:00'', Str ''Unknown'', Num (Finite 20)],
                  [Timestamp ''2024-02-29 00:00:00'', Str ''South'', Num (Finite 30)],
                  [Timestamp ''2024-02-29 00:00:00'', Str ''East'', Num (Finite 20)]]\<rparr>"
proof -
  let ?df = "\<lparr>columns = [(''date'', Object), (''region'', Object), (''units_sold'', Float64)],
      rows = [[Str ''2024-01-31'', Str ''North'', Num (Finite 10)],
              [Str ''2024-01-31'', Num NaN, Num NaN],
              [Str ''2024-01-31'', Str ''North'', Num (Finite 10)],
              [Str ''2024-02-29'', Str ''South'', Num (Finite 30)],
              [Str ''2024-02-29'', Str ''East'', Num (Finite 20)]]\<rparr>"
  have wf: "wf_dataframe ?df" by (simp add: wf_dataframe_def)
  have conv: "convert_dates iso_to_datetime ''date'' ?df =
     Inr \<lparr>columns = [(''date'', Datetime64), (''region'', Object), (''units_sold'', Float64)],
      rows = [[Timestamp ''2024-01-31 00:00:00'', Str ''North'', Num (Finite 10)],
              [Timestamp ''2024-01-31 00:00:00'', Num NaN, Num NaN],
              [Timestamp ''2024-01-31 00:00:00'', Str ''North'', Num (Finite 10)],
              [Timestamp ''2024-02-29 00:00:00'', Str ''South'', Num (Finite 30)],
              [Timestamp ''2024-02-29 00:00:00'', Str ''East'', Num (Finite 20)]]\<rparr>"
    by (simp add: convert_dates_def column_cells_def iso_to_datetime_def)
  show ?thesis
    using clean_dataframe_result [OF wf conv] clean_sales_example
    by (simp only: sum.case)
qed

text \<open>
  C6 as stated fails on a numeric column that is entirely null: its median is NaN, so the
  nulls stay and the numeric column of the returned frame contains nulls.
\<close>

theorem all_null_numeric_column_counterexample:
  "case clean_dataframe iso_to_datetime
          \<lparr>columns = [(''date'', Object), (''revenue'', Float64), (''budget'', Float64)],
           rows = [[Str ''2024-01-31'', Num (Finite 100), Num NaN],
                   [Str ''2024-02-29'', Num (Finite 110), Num NaN]]\<rparr> ''date'' of
     Inl e \<Rightarrow> False
   | Inr out \<Rightarrow>
       snd (columns out ! 2) = Float64 \<and> isnull (rows out ! 0 ! 2) \<and> isnull (rows out ! 1 ! 2)"
  by (simp add: clean_dataframe_def convert_dates_def column_cells_def iso_to_datetime_def
        select_dtypes_def fillna_column_def isnull_def pd_median_def np_sort_def cell_number_def
        upt3 Let_def)

subsection \<open>C7: loading twice\<close>

lemma to_sql_replace: "to_sql df table_name ''replace'' db = Inr (db(table_name \<mapsto> df))"
  by (simp add: to_sql_def split: option.splits)

lemma load_csv_to_db_replace:
  "load_csv_to_db to_datetime files (table @ ''.csv'') table ''replace'' db =
     (case loaded to_datetime files table of
        Some c \<Rightarrow> (Inr (length (rows c)), db(table \<mapsto> c))
      | None \<Rightarrow> (case files (table @ ''.csv'') of
                   None \<Rightarrow> (Inl FileNotFoundError, db)
                 | Some df \<Rightarrow> (Inl (projl (clean_dataframe to_datetime df ''date'')), db)))"
  by (simp add: load_csv_to_db_def loaded_def to_sql_replace split: option.splits sum.splits)

lemma load_tables_step:
  "load_tables to_datetime files (table # rest) (load_results, db) =
     load_tables to_datetime files rest
       (AList.update table (rows_loaded_of to_datetime files table) load_results,
        after_load to_datetime files [table] db)"
proof -
  have db: "after_load to_datetime files [table] db
      = (case loaded to_datetime files table of Some c \<Rightarrow> db(table \<mapsto> c) | None \<Rightarrow> db)"
    by (auto simp add: after_load_def split: option.splits)
  show ?thesis
    unfolding db
    by (simp add: load_csv_to_db_replace rows_loaded_of_def split: option.splits)
qed

lemma after_load_Cons:
  "after_load to_datetime files rest (after_load to_datetime files [table] db)
     = after_load to_datetime files (table # rest) db"
  by (auto simp add: after_load_def split: option.splits)

lemma load_tables_result:
  "load_tables to_datetime files ts (load_results, db) =
     (fold (\<lambda>t. AList.update t (rows_loaded_of to_datetime files t)) ts load_results,
      after_load to_datetime files ts db)"
proof (induction ts arbitrary: load_results db)
  case Nil
  then show ?case by (simp add: after_load_def)
next
  case (Cons table rest)
  show ?case
    unfolding load_tables_step Cons.IH after_load_Cons by simp
qed

lemma after_load_idem:
  "after_load to_datetime files ts (after_load to_datetime files ts db) = after_load to_datetime files ts db"
  by (auto simp add: after_load_def split: option.splits)

text \<open>
  C7. Running \<open>load_all_data\<close> a second time on the same files leaves every table of the
  store, and the row counts reported, as the first run left them. Each successful
  \<open>load_csv_to_db\<close> with \<open>replace\<close> sets the table to the cleaned file whatever the
  table held before; after a run, every fact table whose file exists and cleans holds
  exactly the cleaned file, with its row count reported.
\<close>

theorem load_idempotent:
  "(let first_run = load_all_data to_datetime files db;
        second_run = load_all_data to_datetime files (snd first_run)
    in snd second_run = snd first_run \<and> fst second_run = fst first_run)
 \<and> (files (table @ ''.csv'') = Some df \<and> clean_dataframe to_datetime df ''date'' = Inr cleaned \<longrightarrow>
      load_csv_to_db to_datetime files (table @ ''.csv'') table ''replace'' db
        = (Inr (length (rows cleaned)), db(table \<mapsto> cleaned)))
 \<and> (table \<in> set tables \<and> files (table @ ''.csv'') = Some df
      \<and> clean_dataframe to_datetime df ''date'' = Inr cleaned \<longrightarrow>
      snd (load_all_data to_datetime files db) table = Some cleaned
    \<and> map_of (fst (load_all_data to_datetime files db)) table = Some (length (rows cleaned)))"
proof (intro conjI impI)
  show "let first_run = load_all_data to_datetime files db;
        second_run = load_all_data to_datetime files (snd first_run)
    in snd second_run = snd first_run \<and> fst second_run = fst first_run"
    by (simp add: load_all_data_def load_tables_result after_load_idem Let_def)
next
  assume "files (table @ ''.csv'') = Some df \<and> clean_dataframe to_datetime df ''date'' = Inr cleaned"
  then show "load_csv_to_db to_datetime files (table @ ''.csv'') table ''replace'' db
        = (Inr (length (rows cleaned)), db(table \<mapsto> cleaned))"
    by (simp add: load_csv_to_db_def to_sql_replace)
next
  assume a: "table \<in> set tables \<and> files (table @ ''.csv'') = Some df
      \<and> clean_dataframe to_datetime df ''date'' = Inr cleaned"
  then have l: "loaded to_datetime files table = Some cleaned" by (simp add: loaded_def)
  show "snd (load_all_data to_datetime files db) table = Some cleaned"
    using a l by (simp add: load_all_data_def load_tables_result after_load_def)
  have "map_of (fold (\<lambda>t. AList.update t (rows_loaded_of to_datetime files t)) ts acc) table
          = Some (rows_loaded_of to_datetime files table)" if "table \<in> set ts" for ts acc
    using that
  proof (induction ts arbitrary: acc)
    case Nil
    then show ?case by simp
  next
    case (Cons t ts)
    show ?case
    proof (cases "table \<in> set ts")
      case True
      then show ?thesis using Cons.IH by simp
    next
      case False
      then have t: "t = table" using Cons.prems by simp
      have keep: "map_of (fold (\<lambda>t. AList.update t (rows_loaded_of to_datetime files t)) ts acc') table
                    = map_of acc' table" for acc'
        using False by (induction ts arbitrary: acc') (simp_all add: update_conv')
      show ?thesis by (simp add: t keep update_conv')
    qed
  qed
  then show "map_of (fst (load_all_data to_datetime files db)) table = Some (length (rows cleaned))"
    using a l by (simp add: load_all_data_def load_tables_result rows_loaded_of_def)
qed

theorem load_idempotent_witness:
  "(let files = [''sales.csv'' \<mapsto> \<lparr>columns = [(''date'', Object), (''region'', Object), (''units_sold'', Float64)],
      rows = [[Str ''2024-01-31'', Str ''North'', Num (Finite 10)],
              [Str ''2024-01-31'', Num NaN, Num NaN],
              [Str ''2024-01-31'', Str ''North'', Num (Finite 10)],
              [Str ''2024-02-29'', Str ''South'', Num (Finite 30)],
              [Str ''2024-02-29'', Str ''East'', Num (Finite 20)]]\<rparr>];
        db = [''sales'' \<mapsto> \<lparr>columns = [(''date'', Datetime64)], rows = [[Timestamp ''2023-12-31 00:00:00'']]\<rparr>];
        first_run = load_all_data iso_to_datetime files db;
        second_run = load_all_data iso_to_datetime files (snd first_run)
    in snd first_run ''sales'' = Some \<lparr>columns = [(''date'', Datetime64), (''region'', Object), (''units_sold'', Float64)],
          rows = [[Timestamp ''2024-01-31 00:00:00'', Str ''North'', Num (Finite 10)],
                  [Timestamp ''2024-01-31 00:00:00'', Str ''Unknown'', Num (Finite 20)],
                  [Timestamp ''2024-02-29 00:00:00'', Str ''South'', Num (Finite 30)],
                  [Timestamp ''2024-02-29 00:00:00'', Str ''East'', Num (Finite 20)]]\<rparr>
     \<and> snd second_run = snd first_run
     \<and> fst first_run = [(''finance'', 0), (''sales'', 4), (''operations'', 0), (''hr'', 0),
                          (''it_tickets'', 0)]
     \<and> fst second_run = fst first_run)"
proof -
  let ?files = "[''sales.csv'' \<mapsto> \<lparr>columns = [(''date'', Object), (''region'', Object), (''units_sold'', Float64)],
      rows = [[Str ''2024-01-31'', Str ''North'', Num (Finite 10)],
              [Str ''2024-01-31'', Num NaN, Num NaN],
              [Str ''2024-01-31'', Str ''North'', Num (Finite 10)],
              [Str ''2024-02-29'', Str ''South'', Num (Finite 30)],
              [Str ''2024-02-29'', Str ''East'', Num (Finite 20)]]\<rparr>]"
  let ?db = "[''sales'' \<mapsto> \<lparr>columns = [(''date'', Datetime64)], rows = [[Timestamp ''2023-12-31 00:00:00'']]\<rparr>]"
  have f: "?files (''sales'' @ ''.csv'') = Some \<lparr>columns = [(''date'', Object), (''region'', Object), (''units_sold'', Float64)],
      rows = [[Str ''2024-01-31'', Str ''North'', Num (Finite 10)],
              [Str ''2024-01-31'', Num NaN, Num NaN],
              [Str ''2024-01-31'', Str ''North'', Num (Finite 10)],
              [Str ''2024-02-29'', Str ''South'', Num (Finite 30)],
              [Str ''2024-02-29'', Str ''East'', Num (Finite 20)]]\<rparr>
      \<and> clean_dataframe iso_to_datetime \<lparr>columns = [(''date'', Object), (''region'', Object), (''units_sold'', Float64)],
      rows = [[Str ''2024-01-31'', Str ''North'', Num (Finite 10)],
              [Str ''2024-01-31'', Num NaN, Num NaN],
              [Str ''2024-01-31'', Str ''North'', Num (Finite 10)],
              [Str ''2024-02-29'', Str ''South'', Num (Finite 30)],
              [Str ''2024-02-29'', Str ''East'', Num (Finite 20)]]\<rparr> ''date'' = Inr \<lparr>columns = [(''date'', Datetime64), (''region'', Object), (''units_sold'', Float64)],
          rows = [[Timestamp ''2024-01-31 00:00:00'', Str ''North'', Num (Finite 10)],
                  [Timestamp ''2024-01-31 00:00:00'', Str ''Unknown'', Num (Finite 20)],
                  [Timestamp ''2024-02-29 00:00:00'', Str ''South'', Num (Finite 30)],
                  [Timestamp ''2024-02-29 00:00:00'', Str ''East'', Num (Finite 20)]]\<rparr>"
    using clean_sales_example by simp
  have t: "''sales'' \<in> set tables" by (simp add: tables_def)
  have counts: "fst (load_all_data iso_to_datetime ?files ?db)
      = [(''finance'', 0), (''sales'', 4), (''operations'', 0), (''hr'', 0), (''it_tickets'', 0)]"
    by (simp add: load_all_data_def tables_def load_csv_to_db_def to_sql_def clean_sales_example)
  show ?thesis
    using load_idempotent [of iso_to_datetime ?files ?db "''sales''" "\<lparr>columns = [(''date'', Object), (''region'', Object), (''units_sold'', Float64)],
      rows = [[Str ''2024-01-31'', Str ''North'', Num (Finite 10)],
              [Str ''2024-01-31'', Num NaN, Num NaN],
              [Str ''2024-01-31'', Str ''North'', Num (Finite 10)],
              [Str ''2024-02-29'', Str ''South'', Num (Finite 30)],
              [Str ''2024-02-29'', Str ''East'', Num (Finite 20)]]\<rparr>" "\<lparr>columns = [(''date'', Datetime64), (''region'', Object), (''units_sold'', Float64)],
          rows = [[Timestamp ''2024-01-31 00:00:00'', Str ''North'', Num (Finite 10)],
                  [Timestamp ''2024-01-31 00:00:00'', Str ''Unknown'', Num (Finite 20)],
                  [Timestamp ''2024-02-29 00:00:00'', Str ''South'', Num (Finite 30)],
                  [Timestamp ''2024-02-29 00:00:00'', Str ''East'', Num (Finite 20)]]\<rparr>"] f t counts
    by (simp add: Let_def)
qed


end
